theory Spec2Isabelle
  imports Complex_Main
begin

section \<open>JavaScript numbers\<close>

text \<open>
  The control panel (\<^verbatim>\<open>src/builder.js\<close>) computes with JavaScript Numbers, which are
  IEEE 754 doubles. A finite Number is the real it denotes, and \<^verbatim>\<open>NaN\<close>,
  \<^verbatim>\<open>Infinity\<close> and \<^verbatim>\<open>-Infinity\<close> are constructors of their own. Every operation
  that rounds in the language rounds here: its exact result goes through
  \<open>round_double\<close>. The two zeros are one value: the program never divides by a zero
  and prints both as "0".
\<close>

datatype number = NaN | NegInf | Fin real | PosInf

subsection \<open>Rounding to a double\<close>

text \<open>The nearest integer, a tie going to the even one.\<close>

definition round_half_even :: "real \<Rightarrow> int" where
  "round_half_even s =
     (if s - of_int \<lfloor>s\<rfloor> < 1 / 2 then \<lfloor>s\<rfloor>
      else if 1 / 2 < s - of_int \<lfloor>s\<rfloor> then \<lfloor>s\<rfloor> + 1
      else if even \<lfloor>s\<rfloor> then \<lfloor>s\<rfloor> else \<lfloor>s\<rfloor> + 1)"

text \<open>The number of binary digits of a natural number.\<close>

fun bit_length :: "nat \<Rightarrow> nat" where
  "bit_length n = (if n = 0 then 0 else Suc (bit_length (n div 2)))"

declare bit_length.simps [simp del]

text \<open>
  For \<open>a > 0\<close>, the exponent \<open>e\<close> with \<open>2\<^sup>e \<le> a < 2\<^sup>e\<^sup>+\<^sup>1\<close>, and the exponent of the
  distance between neighbouring doubles there: 53 significant bits, and no exponent
  below that of the subnormal numbers.
\<close>

definition binade :: "real \<Rightarrow> int" where
  "binade a =
     (if 1 \<le> a then int (bit_length (nat \<lfloor>a\<rfloor>)) - 1
      else - int (bit_length (nat (\<lceil>1 / a\<rceil> - 1))))"

definition ulp_exponent :: "real \<Rightarrow> int" where
  "ulp_exponent a = max (binade a - 52) (- 1074)"

text \<open>The multiple of \<open>2\<^sup>q\<close> nearest to \<open>a\<close>, a tie going to the even multiple.\<close>

definition round_to_grid :: "int \<Rightarrow> real \<Rightarrow> real" where
  "round_to_grid q a =
     (if 0 \<le> q then of_int (round_half_even (a / 2 ^ nat q)) * 2 ^ nat q
      else of_int (round_half_even (a * 2 ^ nat (- q))) / 2 ^ nat (- q))"

text \<open>A rounded magnitude with its sign; \<open>2\<^sup>1\<^sup>0\<^sup>2\<^sup>4\<close> and more is an infinity.\<close>

definition with_sign :: "bool \<Rightarrow> real \<Rightarrow> number" where
  "with_sign neg r =
     (if 2 ^ 1024 \<le> r then (if neg then NegInf else PosInf)
      else Fin (if neg then - r else r))"

text \<open>
  The Number value of a real: the double nearest to it (round to nearest, ties to even),
  an infinity on overflow.
\<close>

definition round_double :: "real \<Rightarrow> number" where
  "round_double x =
     (if x = 0 then Fin 0
      else with_sign (x < 0) (round_to_grid (ulp_exponent \<bar>x\<bar>) \<bar>x\<bar>))"

subsection \<open>Operations\<close>

text \<open>The comparison \<^verbatim>\<open>a <= b\<close>: false as soon as one side is \<^verbatim>\<open>NaN\<close>.\<close>

fun js_le :: "number \<Rightarrow> number \<Rightarrow> bool" where
  "js_le NaN b = False"
| "js_le a NaN = False"
| "js_le NegInf b = True"
| "js_le a PosInf = True"
| "js_le (Fin x) (Fin y) = (x \<le> y)"
| "js_le a b = False"

text \<open>\<^verbatim>\<open>Math.max(a, b)\<close> and \<^verbatim>\<open>Math.min(a, b)\<close>: \<^verbatim>\<open>NaN\<close> if an argument is.\<close>

definition Math_max :: "number \<Rightarrow> number \<Rightarrow> number" where
  "Math_max a b = (if a = NaN \<or> b = NaN then NaN else if js_le a b then b else a)"

definition Math_min :: "number \<Rightarrow> number \<Rightarrow> number" where
  "Math_min a b = (if a = NaN \<or> b = NaN then NaN else if js_le a b then a else b)"

text \<open>The sign of a Number that is not \<^verbatim>\<open>NaN\<close>; zero counts as positive zero.\<close>

fun js_sign :: "number \<Rightarrow> int" where
  "js_sign NaN = 0"
| "js_sign NegInf = - 1"
| "js_sign PosInf = 1"
| "js_sign (Fin x) = (if x < 0 then - 1 else if x = 0 then 0 else 1)"

fun js_neg :: "number \<Rightarrow> number" where
  "js_neg NaN = NaN"
| "js_neg NegInf = PosInf"
| "js_neg PosInf = NegInf"
| "js_neg (Fin x) = Fin (- x)"

text \<open>\<^verbatim>\<open>a + b\<close> and \<^verbatim>\<open>a - b\<close>, rounded.\<close>

fun js_add :: "number \<Rightarrow> number \<Rightarrow> number" where
  "js_add NaN b = NaN"
| "js_add a NaN = NaN"
| "js_add (Fin x) (Fin y) = round_double (x + y)"
| "js_add PosInf NegInf = NaN"
| "js_add NegInf PosInf = NaN"
| "js_add (Fin x) b = b"
| "js_add a b = a"

definition js_sub :: "number \<Rightarrow> number \<Rightarrow> number" where
  "js_sub a b = js_add a (js_neg b)"

text \<open>\<^verbatim>\<open>a * b\<close>, rounded: an infinity times zero is \<^verbatim>\<open>NaN\<close>.\<close>

definition js_mul :: "number \<Rightarrow> number \<Rightarrow> number" where
  "js_mul a b =
     (if a = NaN \<or> b = NaN then NaN
      else case (a, b) of
        (Fin x, Fin y) \<Rightarrow> round_double (x * y)
      | _ \<Rightarrow> (let s = js_sign a * js_sign b
              in if s = 0 then NaN else if 0 < s then PosInf else NegInf))"

text \<open>
  \<^verbatim>\<open>a / b\<close>, rounded. The program divides by \<^verbatim>\<open>Math.PI\<close> and by powers of ten
  only; a zero divisor is read as positive zero.
\<close>

definition js_div :: "number \<Rightarrow> number \<Rightarrow> number" where
  "js_div a b =
     (if a = NaN \<or> b = NaN then NaN
      else case (a, b) of
        (Fin x, Fin y) \<Rightarrow>
          (if y = 0 then (if x = 0 then NaN else if 0 < x then PosInf else NegInf)
           else round_double (x / y))
      | (Fin x, _) \<Rightarrow> Fin 0
      | (_, Fin y) \<Rightarrow> (if y < 0 then js_neg a else a)
      | _ \<Rightarrow> NaN)"

text \<open>
  \<^verbatim>\<open>Math.round(x)\<close>: the integer nearest to \<open>x\<close>, a tie going to the larger one
  (\<open>\<lfloor>x + 1/2\<rfloor>\<close>, which is a double when \<open>x\<close> is one); \<^verbatim>\<open>NaN\<close> and the infinities
  are returned as they are.
\<close>

fun Math_round :: "number \<Rightarrow> number" where
  "Math_round (Fin x) = Fin (of_int \<lfloor>x + 1 / 2\<rfloor>)"
| "Math_round a = a"

text \<open>
  \<^verbatim>\<open>Math.PI\<close> is the double nearest to \<open>\<pi>\<close>, with the bits \<^verbatim>\<open>0x400921FB54442D18\<close>:
  \<open>884279719003555 / 2\<^sup>4\<^sup>8\<close> = 3.141592653589793115997963...
\<close>

definition Math_PI :: number where
  "Math_PI = Fin (884279719003555 / 281474976710656)"

text \<open>\<^verbatim>\<open>Math.pow(10, decimals)\<close> for a count of digits.\<close>

definition Math_pow10 :: "nat \<Rightarrow> number" where
  "Math_pow10 decimals = round_double (10 ^ decimals)"

text \<open>\<^verbatim>\<open>x || y\<close> on Numbers: \<open>x\<close> is falsy when it is \<^verbatim>\<open>NaN\<close> or zero.\<close>

definition js_or :: "number \<Rightarrow> number \<Rightarrow> number" where
  "js_or x y = (if x = NaN \<or> x = Fin 0 then y else x)"

section \<open>JavaScript strings\<close>

text \<open>
  A string is a list of 8-bit code units. The white space of \<^verbatim>\<open>trim\<close>, of \<^verbatim>\<open>\s\<close> and
  of \<^verbatim>\<open>parseFloat\<close>/\<^verbatim>\<open>parseInt\<close> is the part of ECMAScript's white space and line
  terminators that fits in 8 bits: TAB, LF, VT, FF, CR, SP and NBSP.
\<close>

definition is_space :: "char \<Rightarrow> bool" where
  "is_space c = (c \<in> {CHR 0x09, CHR 0x0A, CHR 0x0B, CHR 0x0C, CHR 0x0D, CHR 0x20, CHR 0xA0})"

text \<open>\<^verbatim>\<open>\d\<close> is \<^verbatim>\<open>[0-9]\<close> and \<^verbatim>\<open>\w\<close> is \<^verbatim>\<open>[A-Za-z0-9_]\<close>.\<close>

definition is_digit :: "char \<Rightarrow> bool" where
  "is_digit c = (c \<in> set ''0123456789'')"

definition is_word :: "char \<Rightarrow> bool" where
  "is_word c = (c \<in> set ''abcdefghijklmnopqrstuvwxyzABCDEFGHIJKLMNOPQRSTUVWXYZ0123456789_'')"

definition is_hex_digit :: "char \<Rightarrow> bool" where
  "is_hex_digit c = (c \<in> set ''0123456789abcdefABCDEF'')"

definition trim :: "string \<Rightarrow> string" where
  "trim s = rev (dropWhile is_space (rev (dropWhile is_space s)))"

definition startsWith :: "string \<Rightarrow> string \<Rightarrow> bool" where
  "startsWith s p = (take (length p) s = p)"

definition endsWith :: "string \<Rightarrow> string \<Rightarrow> bool" where
  "endsWith s p = (length p \<le> length s \<and> drop (length s - length p) s = p)"

text \<open>\<^verbatim>\<open>s.split(sep)\<close> for a separator of one character; the empty string gives \<^verbatim>\<open>[""]\<close>.\<close>

fun split :: "string \<Rightarrow> char \<Rightarrow> string list" where
  "split [] sep = [[]]"
| "split (c # cs) sep =
     (if c = sep then [] # split cs sep
      else case split cs sep of
        [] \<Rightarrow> [[c]]
      | p # ps \<Rightarrow> (c # p) # ps)"

text \<open>The value of a run of decimal or hexadecimal digits.\<close>

definition digit_val :: "char \<Rightarrow> nat" where
  "digit_val c =
     (if is_digit c then of_char c - 48
      else if c \<in> set ''abcdef'' then of_char c - 87
      else of_char c - 55)"

definition digits_val :: "nat \<Rightarrow> string \<Rightarrow> nat" where
  "digits_val radix ds = foldl (\<lambda>a c. radix * a + digit_val c) 0 ds"

text \<open>An optional sign in front of a numeric text: whether it is negative, and the rest.\<close>

definition strip_sign :: "string \<Rightarrow> bool \<times> string" where
  "strip_sign s =
     (case s of
        [] \<Rightarrow> (False, [])
      | c # r \<Rightarrow>
          if c = CHR ''-'' then (True, r)
          else if c = CHR ''+'' then (False, r)
          else (False, s))"

text \<open>
  The exponent part \<^verbatim>\<open>[eE][+-]?[0-9]+\<close> at the head of a text, 0 when there is none
  (an \<^verbatim>\<open>e\<close> without digits is not part of the literal).
\<close>

definition exponent_part :: "string \<Rightarrow> int" where
  "exponent_part s =
     (case s of
        [] \<Rightarrow> 0
      | c # r \<Rightarrow>
          if c = CHR ''e'' \<or> c = CHR ''E'' then
            (let (neg, t) = strip_sign r; ds = takeWhile is_digit t
             in if ds = [] then 0
                else if neg then - int (digits_val 10 ds) else int (digits_val 10 ds))
          else 0)"

text \<open>
  \<^verbatim>\<open>parseFloat(s)\<close>: skip leading white space, then read the longest prefix that is a
  \<^verbatim>\<open>StrDecimalLiteral\<close> (sign, then \<^verbatim>\<open>Infinity\<close> or digits with an optional fraction
  and exponent); \<^verbatim>\<open>NaN\<close> when there is no such prefix, else the double nearest to the
  decimal value read.
\<close>

definition parseFloat :: "string \<Rightarrow> number" where
  "parseFloat s =
     (let (neg, u) = strip_sign (dropWhile is_space s)
      in if startsWith u ''Infinity'' then (if neg then NegInf else PosInf)
         else
           let ip = takeWhile is_digit u;
               r1 = dropWhile is_digit u;
               has_dot = (case r1 of [] \<Rightarrow> False | c # _ \<Rightarrow> c = CHR ''.'');
               fp = (if has_dot then takeWhile is_digit (tl r1) else []);
               r2 = (if has_dot then dropWhile is_digit (tl r1) else r1)
           in if ip = [] \<and> fp = [] then NaN
              else
                let m = real (digits_val 10 (ip @ fp)) / 10 ^ length fp;
                    e = exponent_part r2;
                    v = (if 0 \<le> e then m * 10 ^ nat e else m / 10 ^ nat (- e))
                in round_double (if neg then - v else v))"

text \<open>
  \<^verbatim>\<open>parseInt(s)\<close> without a radix: skip leading white space, read a sign, switch to
  radix 16 after a \<^verbatim>\<open>0x\<close>/\<^verbatim>\<open>0X\<close> prefix, then read the longest run of digits of the
  radix; \<^verbatim>\<open>NaN\<close> when the run is empty, else the double nearest to the integer read.
\<close>

definition parseInt :: "string \<Rightarrow> number" where
  "parseInt s =
     (let (neg, u) = strip_sign (dropWhile is_space s);
          hex = (startsWith u ''0x'' \<or> startsWith u ''0X'');
          ds = (if hex then takeWhile is_hex_digit (drop 2 u) else takeWhile is_digit u);
          n = digits_val (if hex then 16 else 10) ds
      in if ds = [] then NaN else round_double (if neg then - real n else real n))"

section \<open>The snapshot decoder\<close>

text \<open>
  The two \<^verbatim>\<open>replace\<close> calls of \<^verbatim>\<open>parseSimulationState\<close>: \<^verbatim>\<open>/^\.?\{/\<close> removes an
  opening brace at the start, with the dot in front of it if there is one, and
  \<^verbatim>\<open>/}$/\<close> removes a closing brace at the end.
\<close>

definition strip_open :: "string \<Rightarrow> string" where
  "strip_open s =
     (if startsWith s ''.{'' then drop 2 s
      else if startsWith s ''{'' then drop 1 s
      else s)"

definition strip_close :: "string \<Rightarrow> string" where
  "strip_close s = (if endsWith s ''}'' then butlast s else s)"

text \<open>
  The match of \<^verbatim>\<open>/^\.?(\w+)\s*=\s*(-?\d*\.?\d+)/\<close> against a fragment: the two captured
  groups, or \<open>None\<close> when the pattern does not match. The pattern is anchored at the
  start only. Every quantifier is greedy, and what follows each of \<^verbatim>\<open>\.?\<close>,
  \<^verbatim>\<open>\w+\<close>, \<^verbatim>\<open>\s*\<close> and \<^verbatim>\<open>-?\<close> cannot start with a character the quantifier
  accepts, so these take their longest match. In the number, \<^verbatim>\<open>\d*\<close> takes the run of
  digits \<open>ip\<close>; a dot followed by digits \<open>fp\<close> is then taken with them; otherwise the
  matcher backtracks, gives the last digit of \<open>ip\<close> to \<^verbatim>\<open>\d+\<close>, and captures \<open>ip\<close>
  alone, which needs \<open>ip\<close> not to be empty.
\<close>

definition match_assignment :: "string \<Rightarrow> (string \<times> string) option" where
  "match_assignment trimmed =
     (let s0 = (if startsWith trimmed ''.'' then drop 1 trimmed else trimmed);
          varName = takeWhile is_word s0;
          s1 = dropWhile is_space (dropWhile is_word s0)
      in if varName = [] \<or> \<not> startsWith s1 ''='' then None
         else
           let s2 = dropWhile is_space (drop 1 s1);
               sg = (if startsWith s2 ''-'' then ''-'' else []);
               s3 = drop (length sg) s2;
               ip = takeWhile is_digit s3;
               s4 = dropWhile is_digit s3;
               fp = (if startsWith s4 ''.'' then takeWhile is_digit (drop 1 s4) else [])
           in if fp \<noteq> [] then Some (varName, sg @ ip @ ''.'' @ fp)
              else if ip \<noteq> [] then Some (varName, sg @ ip)
              else None)"

text \<open>
  The decoded snapshot is the object \<^verbatim>\<open>state\<close>: a finite map from its own property names
  to Numbers. The assignment \<^verbatim>\<open>state[varName] = ...\<close> creates or overwrites an own
  property, except for the name \<^verbatim>\<open>__proto__\<close>: that is the accessor inherited from
  \<^verbatim>\<open>Object.prototype\<close>, whose setter ignores a Number.
\<close>

type_synonym state = "string \<rightharpoonup> number"

definition parse_assignment :: "state \<Rightarrow> string \<Rightarrow> state" where
  "parse_assignment st assignment =
     (case match_assignment (trim assignment) of
        None \<Rightarrow> st
      | Some (varName, v) \<Rightarrow>
          if varName = ''__proto__'' then st else st(varName \<mapsto> parseFloat v))"

text \<open>
  The argument of \<^verbatim>\<open>parseSimulationState\<close> is a JavaScript value. On a string no step of
  the \<^verbatim>\<open>try\<close> block throws. On any other primitive value \<^verbatim>\<open>stateString.trim()\<close> throws
  a \<^verbatim>\<open>TypeError\<close>, which the \<^verbatim>\<open>catch\<close> turns into the result \<^verbatim>\<open>null\<close>, here \<open>None\<close>.
\<close>

datatype js_value = JUndefined | JNull | JBoolean bool | JNumber number | JString string

definition parseSimulationState :: "js_value \<Rightarrow> state option" where
  "parseSimulationState x =
     (case x of
        JString stateString \<Rightarrow>
          (let cleanString = strip_close (strip_open (trim stateString));
               assignments = split cleanString CHR '',''
           in Some (foldl parse_assignment Map.empty assignments))
      | _ \<Rightarrow> None)"

section \<open>The variable registry\<close>

text \<open>
  A \<^verbatim>\<open>VariableDef\<close>: \<^verbatim>\<open>step\<close>, \<^verbatim>\<open>range\<close> and the two bounds of a range are
  optional (\<^verbatim>\<open>undefined\<close> is \<open>None\<close>). The type is the string the source compares
  with \<^verbatim>\<open>"int"\<close> and \<^verbatim>\<open>"float"\<close>. A numeric literal of the source that is not a
  double, such as \<^verbatim>\<open>0.01\<close>, denotes the double nearest to it.
\<close>

record range_obj =
  range_min :: "number option"
  range_max :: "number option"

record variable =
  var_name :: string
  var_type :: string
  var_value :: number
  var_step :: "number option"
  var_range :: "range_obj option"

definition variables :: "variable list" where
  "variables =
     [\<lparr>var_name = ''move_dist'', var_type = ''float'', var_value = Fin 0,
       var_step = Some (round_double (1 / 100)), var_range = None\<rparr>,
      \<lparr>var_name = ''turn_rate'', var_type = ''float'', var_value = Fin 0,
       var_step = Some (Fin (1 / 2)), var_range = None\<rparr>,
      \<lparr>var_name = ''sample_dist'', var_type = ''float'', var_value = Fin 0,
       var_step = Some (round_double (1 / 100)), var_range = None\<rparr>,
      \<lparr>var_name = ''sample_angle'', var_type = ''float'', var_value = Fin 0,
       var_step = Some (round_double (1 / 20)), var_range = None\<rparr>,
      \<lparr>var_name = ''move_dist_mod'', var_type = ''float'', var_value = Fin 0,
       var_step = Some (round_double (1 / 100)), var_range = None\<rparr>,
      \<lparr>var_name = ''turn_rate_mod'', var_type = ''float'', var_value = Fin 0,
       var_step = Some (Fin (1 / 2)), var_range = None\<rparr>,
      \<lparr>var_name = ''sample_dist_mod'', var_type = ''float'', var_value = Fin 0,
       var_step = Some (round_double (1 / 100)), var_range = None\<rparr>,
      \<lparr>var_name = ''sample_angle_mod'', var_type = ''float'', var_value = Fin 0,
       var_step = Some (round_double (1 / 20)), var_range = None\<rparr>,
      \<lparr>var_name = ''density_scale'', var_type = ''int'', var_value = Fin 0,
       var_step = Some (Fin 1), var_range = None\<rparr>,
      \<lparr>var_name = ''pheromone_decay_rate'', var_type = ''float'', var_value = Fin 0,
       var_step = Some (Fin (- (1 / 2))),
       var_range = Some \<lparr>range_min = Some (Fin (- 100)), range_max = Some (Fin 1)\<rparr>\<rparr>]"

definition getDefaultStep :: "string \<Rightarrow> number" where
  "getDefaultStep ty = (if ty = ''int'' then Fin 1 else round_double (1 / 10))"

definition clampValue :: "number \<Rightarrow> range_obj option \<Rightarrow> number" where
  "clampValue v rng =
     (case rng of
        None \<Rightarrow> v
      | Some r \<Rightarrow>
          (let clamped = (case range_min r of None \<Rightarrow> v | Some lo \<Rightarrow> Math_max lo v)
           in case range_max r of None \<Rightarrow> clamped | Some hi \<Rightarrow> Math_min hi clamped))"

section \<open>Applying a snapshot\<close>

definition angleVariables :: "string list" where
  "angleVariables = [''turn_rate'', ''sample_angle'', ''turn_rate_mod'', ''sample_angle_mod'']"

text \<open>
  The body of the loop of \<^verbatim>\<open>updateVariablesFromServer\<close> for one variable, once
  \<^verbatim>\<open>serverState.hasOwnProperty(variable.name)\<close> has been evaluated.
\<close>

definition update_variable :: "state \<Rightarrow> variable \<Rightarrow> variable" where
  "update_variable serverState v =
     (case serverState (var_name v) of
        None \<Rightarrow> v
      | Some raw \<Rightarrow>
          (let newValue =
                 (if var_name v \<in> set angleVariables
                  then js_div (Math_round (js_mul (js_div raw Math_PI) (Fin 10000))) (Fin 10000)
                  else raw);
               finalValue = (if var_type v = ''int'' then Math_round newValue else newValue)
           in v\<lparr>var_value := clampValue finalValue (var_range v)\<rparr>))"

text \<open>
  The loop over the registry. The membership test is the method call
  \<^verbatim>\<open>serverState.hasOwnProperty(...)\<close>: when the snapshot has an own property named
  \<^verbatim>\<open>hasOwnProperty\<close> (a Number, written by the decoder), that property shadows the
  method of \<^verbatim>\<open>Object.prototype\<close> and the call throws a \<^verbatim>\<open>TypeError\<close>, which nothing
  catches. The result is the exception, if any, and the registry as the loop left it.
\<close>

datatype exn = TypeError

fun updateVariablesFromServer :: "state \<Rightarrow> variable list \<Rightarrow> exn option \<times> variable list" where
  "updateVariablesFromServer serverState [] = (None, [])"
| "updateVariablesFromServer serverState (v # rest) =
     (if serverState ''hasOwnProperty'' \<noteq> None then (Some TypeError, v # rest)
      else
        let (e, rest') = updateVariablesFromServer serverState rest
        in (e, update_variable serverState v # rest'))"

text \<open>
  The handler of a text message, lines 294 to 313: \<open>apply_server_state\<close> is the
  \<^verbatim>\<open>if (serverState) ... else ...\<close> after the decoder (every object is truthy, the
  empty one too; only \<^verbatim>\<open>null\<close> takes the \<^verbatim>\<open>else\<close> branch, which logs a warning).
\<close>

definition apply_server_state :: "state option \<Rightarrow> variable list \<Rightarrow> exn option \<times> variable list" where
  "apply_server_state decoded vars =
     (case decoded of
        Some serverState \<Rightarrow> updateVariablesFromServer serverState vars
      | None \<Rightarrow> (None, vars))"

definition on_message :: "string \<Rightarrow> variable list \<Rightarrow> exn option \<times> variable list" where
  "on_message data vars =
     (let message = trim data
      in if startsWith message ''Success: ''
         then apply_server_state (parseSimulationState (JString (drop 9 message))) vars
         else (None, vars))"

section \<open>Sending an update\<close>

text \<open>
  The global \<^verbatim>\<open>ws\<close> is \<^verbatim>\<open>null\<close> (\<open>None\<close>) or a socket in one of its four ready states.
  \<^verbatim>\<open>sendVariableUpdate\<close> returns the text given to \<^verbatim>\<open>ws.send\<close>, or \<open>None\<close> when it
  only warns. The template literal converts the value with the language's
  Number-to-string conversion, which is the parameter \<open>toStr\<close>; \<open>number_toString\<close>
  below is that conversion.
\<close>

datatype readyState = CONNECTING | OPEN | CLOSING | CLOSED

definition sendVariableUpdate ::
  "(number \<Rightarrow> string) \<Rightarrow> readyState option \<Rightarrow> string \<Rightarrow> number \<Rightarrow> string option" where
  "sendVariableUpdate toStr ws variableName v =
     (if ws \<noteq> Some OPEN then None
      else
        let hasMod = endsWith variableName ''_mod'';
            baseName = (if hasMod then take (length variableName - 4) variableName
                        else variableName);
            message = baseName @ '' '' @ toStr v
        in Some (if hasMod then message @ '' mod'' else message))"

section \<open>The variable component\<close>

record component =
  isEditing :: bool
  editValue :: string

text \<open>
  \<^verbatim>\<open>applyEdit\<close>: the component and the variable after the call, and the text sent.
\<close>

definition applyEdit ::
  "(number \<Rightarrow> string) \<Rightarrow> readyState option \<Rightarrow> component \<Rightarrow> variable
     \<Rightarrow> component \<times> variable \<times> string option" where
  "applyEdit toStr ws c variable_def =
     (if \<not> isEditing c then (c, variable_def, None)
      else
        let newValue = js_or (parseFloat (editValue c)) (Fin 0);
            newValue = (if var_type variable_def = ''int''
                        then js_or (parseInt (editValue c)) (Fin 0) else newValue);
            newValue = clampValue newValue (var_range variable_def)
        in (c\<lparr>isEditing := False, editValue := []\<rparr>,
            variable_def\<lparr>var_value := newValue\<rparr>,
            sendVariableUpdate toStr ws (var_name variable_def) newValue))"

text \<open>
  The step of \<^verbatim>\<open>view\<close>, \<^verbatim>\<open>variable_def.step || getDefaultStep(variable_def.type)\<close>, and
  the count \<^verbatim>\<open>step.toString().split(".")[1]?.length || 0\<close> of the two buttons.
\<close>

definition view_step :: "variable \<Rightarrow> number" where
  "view_step variable_def =
     (case var_step variable_def of
        None \<Rightarrow> getDefaultStep (var_type variable_def)
      | Some s \<Rightarrow> js_or s (getDefaultStep (var_type variable_def)))"

definition step_decimals :: "(number \<Rightarrow> string) \<Rightarrow> number \<Rightarrow> nat" where
  "step_decimals toStr step =
     (case split (toStr step) CHR ''.'' of
        _ # p # _ \<Rightarrow> length p
      | _ \<Rightarrow> 0)"

definition onclick_up ::
  "(number \<Rightarrow> string) \<Rightarrow> readyState option \<Rightarrow> variable \<Rightarrow> variable \<times> string option" where
  "onclick_up toStr ws variable_def =
     (let step = view_step variable_def;
          newValue = js_add (var_value variable_def) step;
          newValue = clampValue newValue (var_range variable_def);
          newValue =
            (if var_type variable_def = ''float'' then
               (let decimals = step_decimals toStr step
                in js_div (Math_round (js_mul newValue (Math_pow10 decimals)))
                     (Math_pow10 decimals))
             else newValue)
      in (variable_def\<lparr>var_value := newValue\<rparr>,
          sendVariableUpdate toStr ws (var_name variable_def) newValue))"

definition onclick_down ::
  "(number \<Rightarrow> string) \<Rightarrow> readyState option \<Rightarrow> variable \<Rightarrow> variable \<times> string option" where
  "onclick_down toStr ws variable_def =
     (let step = view_step variable_def;
          newValue = js_sub (var_value variable_def) step;
          newValue = clampValue newValue (var_range variable_def);
          newValue =
            (if var_type variable_def = ''float'' then
               (let decimals = step_decimals toStr step
                in js_div (Math_round (js_mul newValue (Math_pow10 decimals)))
                     (Math_pow10 decimals))
             else newValue)
      in (variable_def\<lparr>var_value := newValue\<rparr>,
          sendVariableUpdate toStr ws (var_name variable_def) newValue))"

section \<open>The text of a Number\<close>

text \<open>
  \<^verbatim>\<open>Number.prototype.toString\<close>, which the source calls as \<^verbatim>\<open>step.toString()\<close> and
  through the template literal of \<^verbatim>\<open>sendVariableUpdate\<close>: the shortest run of decimal
  digits \<open>ds\<close>, with the decimal exponent \<open>n\<close>, whose value \<open>0.ds \<times> 10\<^sup>n\<close> rounds back to the
  Number (the closest such value when there are several), printed in plain notation for
  \<open>-6 < n \<le> 21\<close> and in exponent notation otherwise.
\<close>

fun nat_text :: "nat \<Rightarrow> string" where
  "nat_text n =
     (if n < 10 then [''0123456789'' ! n]
      else nat_text (n div 10) @ [''0123456789'' ! (n mod 10)])"

declare nat_text.simps [simp del]

definition scale10 :: "int \<Rightarrow> real" where
  "scale10 p = (if 0 \<le> p then 10 ^ nat p else 1 / 10 ^ nat (- p))"

text \<open>For \<open>a > 0\<close>, the \<open>n\<close> with \<open>10\<^sup>n\<^sup>-\<^sup>1 \<le> a < 10\<^sup>n\<close>.\<close>

definition decimal_exponent :: "real \<Rightarrow> int" where
  "decimal_exponent a =
     (if 1 \<le> a then int (length (nat_text (nat \<lfloor>a\<rfloor>)))
      else 1 - int (length (nat_text (nat (\<lceil>1 / a\<rceil> - 1)))))"

text \<open>
  The digits for the double \<open>a > 0\<close> when \<open>k\<close> digits are enough: of the two decimals of
  \<open>k\<close> digits around \<open>a\<close>, one that rounds to \<open>a\<close>, the closer one if both do (the even
  one on a tie). The upper decimal may be the power of ten above \<open>a\<close>.
\<close>

definition pick_digits :: "real \<Rightarrow> int \<Rightarrow> nat \<Rightarrow> (string \<times> int) option" where
  "pick_digits a n k =
     (let p = scale10 (n - int k);
          lo = \<lfloor>a / p\<rfloor>;
          hi = lo + 1;
          ok_lo = (round_double (of_int lo * p) = Fin a);
          ok_hi = (round_double (of_int hi * p) = Fin a);
          d_lo = a - of_int lo * p;
          d_hi = of_int hi * p - a
      in if ok_hi \<and> (\<not> ok_lo \<or> d_hi < d_lo \<or> (d_hi = d_lo \<and> even hi))
         then Some (if hi = 10 ^ k then (''1'', n + 1) else (nat_text (nat hi), n))
         else if ok_lo then Some (nat_text (nat lo), n)
         else None)"

text \<open>
  The search for the least \<open>k\<close>, from \<open>k\<close> upwards; 17 digits are enough for every double.
\<close>

fun shortest_digits :: "nat \<Rightarrow> real \<Rightarrow> int \<Rightarrow> nat \<Rightarrow> string \<times> int" where
  "shortest_digits 0 a n k = (nat_text (nat \<lfloor>a / scale10 (n - int k)\<rfloor>), n)"
| "shortest_digits (Suc fuel) a n k =
     (case pick_digits a n k of
        Some r \<Rightarrow> r
      | None \<Rightarrow> shortest_digits fuel a n (k + 1))"

definition format_digits :: "string \<Rightarrow> int \<Rightarrow> string" where
  "format_digits ds n =
     (let k = int (length ds)
      in if k \<le> n \<and> n \<le> 21 then ds @ replicate (nat (n - k)) CHR ''0''
         else if 0 < n \<and> n \<le> 21 then take (nat n) ds @ ''.'' @ drop (nat n) ds
         else if - 6 < n \<and> n \<le> 0 then ''0.'' @ replicate (nat (- n)) CHR ''0'' @ ds
         else (if k = 1 then ds else take 1 ds @ ''.'' @ drop 1 ds) @ ''e'' @
              (if n - 1 < 0 then ''-'' else ''+'') @ nat_text (nat \<bar>n - 1\<bar>))"

fun number_toString :: "number \<Rightarrow> string" where
  "number_toString NaN = ''NaN''"
| "number_toString PosInf = ''Infinity''"
| "number_toString NegInf = ''-Infinity''"
| "number_toString (Fin x) =
     (if x = 0 then ''0''
      else (if x < 0 then ''-'' else []) @
           (case shortest_digits 17 \<bar>x\<bar> (decimal_exponent \<bar>x\<bar>) 1 of
              (ds, n) \<Rightarrow> format_digits ds n))"

declare number_toString.simps [simp del]

section \<open>Evaluation rules\<close>

text \<open>
  The recursive functions are unfolded on numerals only, so that the simplifier
  evaluates concrete Numbers and texts and leaves symbolic terms alone.
\<close>

lemma bit_length_0: "bit_length 0 = 0"
  by (simp add: bit_length.simps)

lemma bit_length_1: "bit_length 1 = 1" "bit_length (Suc 0) = 1"
  by (simp_all add: bit_length.simps)

lemma bit_length_numeral: "bit_length (numeral k) = Suc (bit_length (numeral k div 2))"
  by (subst bit_length.simps) simp

lemma nat_text_small: "nat_text 0 = ''0''" "nat_text 1 = ''1''" "nat_text (Suc 0) = ''1''"
  by (simp_all add: nat_text.simps)

lemma nat_text_numeral:
  "nat_text (numeral k) =
     (if numeral k < (10::nat) then [''0123456789'' ! numeral k]
      else nat_text (numeral k div 10) @ [''0123456789'' ! (numeral k mod 10)])"
  by (rule nat_text.simps)

lemma shortest_digits_numeral:
  "shortest_digits (numeral f) a n k =
     (case pick_digits a n k of
        Some r \<Rightarrow> r
      | None \<Rightarrow> shortest_digits (pred_numeral f) a n (k + 1))"
  by (simp add: numeral_eq_Suc)

lemma replicate_num: "replicate (numeral k) x = x # replicate (pred_numeral k) x"
  by (simp add: numeral_eq_Suc)

lemmas double_eval =
  round_double_def with_sign_def round_to_grid_def ulp_exponent_def binade_def
  bit_length_0 bit_length_1 bit_length_numeral round_half_even_def

lemmas toString_eval =
  number_toString.simps nat_text_small nat_text_numeral scale10_def decimal_exponent_def pick_digits_def
  shortest_digits_numeral format_digits_def replicate_num

lemmas text_defs =
  is_digit_def is_space_def is_word_def is_hex_digit_def trim_def startsWith_def
  endsWith_def digit_val_def digits_val_def strip_sign_def exponent_part_def
  parseFloat_def parseInt_def Let_def

lemmas decoder_defs =
  strip_open_def strip_close_def match_assignment_def parse_assignment_def
  parseSimulationState_def

lemmas number_defs =
  Math_max_def Math_min_def js_sub_def js_mul_def js_div_def Math_PI_def Math_pow10_def
  js_or_def

section \<open>Properties of rounding\<close>

lemma round_double_not_NaN [simp]: "round_double x \<noteq> NaN"
  by (simp add: round_double_def with_sign_def)

lemma round_half_even_ge: "of_int k \<le> s \<Longrightarrow> k \<le> round_half_even s"
  by (simp add: round_half_even_def le_floor_iff) linarith

lemma round_half_even_le: "s \<le> of_int k \<Longrightarrow> round_half_even s \<le> k"
  unfolding round_half_even_def by (auto split: if_splits) linarith+

lemma bit_length_bound: "n < 2 ^ k \<Longrightarrow> bit_length n \<le> k"
proof (induction k arbitrary: n)
  case 0
  then show ?case by (simp add: bit_length.simps)
next
  case (Suc k)
  have "n div 2 < 2 ^ k"
    using Suc.prems by simp
  then have "bit_length (n div 2) \<le> k"
    by (rule Suc.IH)
  then show ?case
    by (subst bit_length.simps) simp
qed

text \<open>Below \<open>2\<^sup>5\<^sup>3\<close> the doubles are at most 1 apart, so every integer is on their grid.\<close>

lemma ulp_exponent_nonpos:
  assumes "a < 2 ^ 53"
  shows "ulp_exponent a \<le> 0"
proof (cases "1 \<le> a")
  case True
  have "nat \<lfloor>a\<rfloor> < 2 ^ 53"
    using assms True by (simp add: nat_less_iff floor_less_iff)
  then have "bit_length (nat \<lfloor>a\<rfloor>) \<le> 53"
    by (rule bit_length_bound)
  then show ?thesis
    using True by (simp add: ulp_exponent_def binade_def)
next
  case False
  then show ?thesis
    by (simp add: ulp_exponent_def binade_def)
qed

lemma round_to_grid_ge:
  assumes "q \<le> 0" "of_int c \<le> a"
  shows "of_int c \<le> round_to_grid q a"
proof (cases "q = 0")
  case True
  then show ?thesis
    using assms round_half_even_ge [of c a] by (simp add: round_to_grid_def)
next
  case False
  let ?p = "(2::real) ^ nat (- q)"
  have "of_int (c * 2 ^ nat (- q)) \<le> a * ?p"
    using assms by simp
  then have "c * 2 ^ nat (- q) \<le> round_half_even (a * ?p)"
    by (rule round_half_even_ge)
  then have "of_int (c * 2 ^ nat (- q)) \<le> (of_int (round_half_even (a * ?p)) :: real)"
    by (simp only: of_int_le_iff)
  then have "of_int c * ?p \<le> of_int (round_half_even (a * ?p))"
    by simp
  then have "of_int c \<le> of_int (round_half_even (a * ?p)) / ?p"
    by (simp add: pos_le_divide_eq)
  then show ?thesis
    using False assms by (simp add: round_to_grid_def)
qed

lemma round_to_grid_le:
  assumes "q \<le> 0" "a \<le> of_int c"
  shows "round_to_grid q a \<le> of_int c"
proof (cases "q = 0")
  case True
  then show ?thesis
    using assms round_half_even_le [of a c] by (simp add: round_to_grid_def)
next
  case False
  let ?p = "(2::real) ^ nat (- q)"
  have "a * ?p \<le> of_int (c * 2 ^ nat (- q))"
    using assms by simp
  then have "round_half_even (a * ?p) \<le> c * 2 ^ nat (- q)"
    by (rule round_half_even_le)
  then have "(of_int (round_half_even (a * ?p)) :: real) \<le> of_int (c * 2 ^ nat (- q))"
    by (simp only: of_int_le_iff)
  then have "of_int (round_half_even (a * ?p)) \<le> of_int c * ?p"
    by simp
  then have "of_int (round_half_even (a * ?p)) / ?p \<le> of_int c"
    by (simp add: pos_divide_le_eq)
  then show ?thesis
    using False assms by (simp add: round_to_grid_def)
qed

text \<open>
  Rounding does not cross an integer: a real between two integers of magnitude below
  \<open>2\<^sup>5\<^sup>3\<close> rounds to a finite double between them.
\<close>

lemma round_double_between:
  assumes "of_int lo \<le> x" "x \<le> of_int hi" "- (2 ^ 53) < lo" "hi < 2 ^ 53"
  shows "\<exists>y. round_double x = Fin y \<and> of_int lo \<le> y \<and> y \<le> of_int hi"
proof -
  have big: "(2::real) ^ 53 < 2 ^ 1024"
    by simp
  have "(of_int hi :: real) < of_int (2 ^ 53)"
    using assms(4) by (simp only: of_int_less_iff)
  then have hi53: "(of_int hi :: real) < 2 ^ 53"
    by simp
  have "(of_int (- (2 ^ 53)) :: real) < of_int lo"
    using assms(3) by (simp only: of_int_less_iff)
  then have lo53: "- (2 ^ 53) < (of_int lo :: real)"
    by simp
  consider "x = 0" | "0 < x" | "x < 0"
    by linarith
  then show ?thesis
  proof cases
    case 1
    then show ?thesis
      using assms by (simp add: round_double_def)
  next
    case 2
    let ?r = "round_to_grid (ulp_exponent x) x"
    have q: "ulp_exponent x \<le> 0"
      using assms(2) hi53 by (intro ulp_exponent_nonpos) linarith
    have "of_int lo \<le> ?r" "?r \<le> of_int hi"
      using q assms by (simp_all add: round_to_grid_ge round_to_grid_le)
    moreover from this have "?r < 2 ^ 1024"
      using hi53 big by linarith
    ultimately show ?thesis
      using 2 by (simp add: round_double_def with_sign_def)
  next
    case 3
    let ?r = "round_to_grid (ulp_exponent (- x)) (- x)"
    have q: "ulp_exponent (- x) \<le> 0"
      using assms(1) lo53 by (intro ulp_exponent_nonpos) linarith
    have "of_int (- hi) \<le> - x" "- x \<le> of_int (- lo)"
      using assms by simp_all
    then have "of_int (- hi) \<le> ?r" "?r \<le> of_int (- lo)"
      using q round_to_grid_ge [of "ulp_exponent (- x)" "- hi" "- x"]
        round_to_grid_le [of "ulp_exponent (- x)" "- x" "- lo"] by blast+
    then have r: "- of_int hi \<le> ?r" "?r \<le> - of_int lo"
      by simp_all
    then have "?r < 2 ^ 1024"
      using lo53 big by linarith
    then show ?thesis
      using 3 r by (simp add: round_double_def with_sign_def)
  qed
qed

lemma js_add_not_NaN: "a \<noteq> NaN \<Longrightarrow> js_add a (Fin y) \<noteq> NaN"
  by (cases a) simp_all

section \<open>The models of the language on examples\<close>

text \<open>
  Doubles: 0.1; two ties above \<open>2\<^sup>5\<^sup>3\<close>, which go to the even neighbour; the overflow
  threshold and the largest double; the least subnormal numbers.
\<close>

lemma round_double_examples:
  "round_double (1 / 10) = Fin (3602879701896397 / 36028797018963968)"
  "round_double 9007199254740993 = Fin 9007199254740992"
  "round_double 9007199254740995 = Fin 9007199254740996"
  "round_double (2 ^ 1024 - 2 ^ 970) = PosInf"
  "round_double (2 ^ 1024 - 2 ^ 970 - 1) = Fin (2 ^ 1024 - 2 ^ 971)"
  "round_double (- (2 ^ 1024)) = NegInf"
  "round_double (1 / 2 ^ 1075) = Fin 0"
  "round_double (3 / 2 ^ 1075) = Fin (1 / 2 ^ 1073)"
  by (simp_all add: double_eval)

lemma parseFloat_examples:
  "parseFloat ''  12.50abc'' = Fin (25 / 2)"
  "parseFloat ''1e3'' = Fin 1000"
  "parseFloat ''.5'' = Fin (1 / 2)"
  "parseFloat ''-1.5e-1x'' = round_double (- (15 / 100))"
  "parseFloat ''1.e2'' = Fin 100"
  "parseFloat ''+Infinity'' = PosInf"
  "parseFloat ''-Infinityx'' = NegInf"
  "parseFloat ''infinity'' = NaN"
  "parseFloat ''.'' = NaN"
  "parseFloat ''e5'' = NaN"
  "parseFloat ''0x10'' = Fin 0"
  "parseFloat ''1e400'' = PosInf"
  by (simp_all add: text_defs double_eval)

lemma parseInt_examples:
  "parseInt ''  -42px'' = Fin (- 42)"
  "parseInt ''0x1F'' = Fin 31"
  "parseInt ''0x'' = NaN"
  "parseInt ''1e3'' = Fin 1"
  "parseInt ''.5'' = NaN"
  "parseInt [] = NaN"
  by (simp_all add: text_defs double_eval)

lemma number_toString_examples:
  "number_toString (Fin 0) = ''0''"
  "number_toString (Fin (- (1 / 2))) = ''-0.5''"
  "number_toString (round_double (1 / 100)) = ''0.01''"
  "number_toString (round_double (3 / 10)) = ''0.3''"
  "number_toString (Fin 100) = ''100''"
  "number_toString (Fin (10 ^ 21)) = ''1e+21''"
  "number_toString (round_double (10 ^ 23)) = ''1e+23''"
  "number_toString (round_double (1 / 10 ^ 6)) = ''0.000001''"
  "number_toString (round_double (1 / 10 ^ 7)) = ''1e-7''"
  "number_toString (round_double (15 / 10 ^ 8)) = ''1.5e-7''"
  "number_toString (js_add (round_double (1 / 10)) (round_double (2 / 10))) =
     ''0.30000000000000004''"
  by (simp_all add: double_eval toString_eval Let_def)

section \<open>The decoder on the documented example\<close>

text \<open>
  C7. Decoding the line \<^verbatim>\<open>.{a=1, b=bad, c=3.5}\<close> returns an object, not \<^verbatim>\<open>null\<close>, and
  the object is exactly \<^verbatim>\<open>{a: 1, c: 3.5}\<close>: the fragment \<^verbatim>\<open>b=bad\<close> is skipped, and
  each matched key holds its parsed number.
\<close>

theorem decode_skips_malformed_fragment:
  "parseSimulationState (JString ''.{a=1, b=bad, c=3.5}'') =
     Some [''a'' \<mapsto> Fin 1, ''c'' \<mapsto> Fin (7 / 2)]"
  by (simp add: decoder_defs text_defs double_eval)

section \<open>The outbound encoder\<close>

lemma endsWith_append: "endsWith (base @ p) p"
  by (simp add: endsWith_def)

lemma send_plain:
  "\<not> endsWith name ''_mod'' \<Longrightarrow>
   sendVariableUpdate toStr (Some OPEN) name v = Some (name @ '' '' @ toStr v)"
  by (simp add: sendVariableUpdate_def)

lemma send_mod:
  "sendVariableUpdate toStr (Some OPEN) (base @ ''_mod'') v =
     Some (base @ '' '' @ toStr v @ '' mod'')"
  using endsWith_append [of base "''_mod''"] by (simp add: sendVariableUpdate_def)

lemma send_closed: "ws \<noteq> Some OPEN \<Longrightarrow> sendVariableUpdate toStr ws name v = None"
  by (simp add: sendVariableUpdate_def)

text \<open>
  C6. With the transport open, the text sent for a name that does not end in
  \<^verbatim>\<open>_mod\<close> is the name, a space and the text of the value; for a name \<open>base\<close>
  followed by \<^verbatim>\<open>_mod\<close> it is \<open>base\<close>, a space, the text of the value and \<^verbatim>\<open> mod\<close>.
  Variable \<^verbatim>\<open>sample_angle_mod\<close> with value 2 gives \<^verbatim>\<open>sample_angle 2 mod\<close>.
\<close>

theorem encode_wire_text:
  "(\<not> endsWith name ''_mod'' \<longrightarrow>
      sendVariableUpdate toStr (Some OPEN) name v = Some (name @ '' '' @ toStr v)) \<and>
   sendVariableUpdate toStr (Some OPEN) (base @ ''_mod'') v =
      Some (base @ '' '' @ toStr v @ '' mod'') \<and>
   sendVariableUpdate number_toString (Some OPEN) ''sample_angle_mod'' (Fin 2) =
      Some ''sample_angle 2 mod''"
proof -
  have "sendVariableUpdate number_toString (Some OPEN) (''sample_angle'' @ ''_mod'') (Fin 2) =
      Some (''sample_angle'' @ '' '' @ number_toString (Fin 2) @ '' mod'')"
    by (rule send_mod)
  then have "sendVariableUpdate number_toString (Some OPEN) ''sample_angle_mod'' (Fin 2) =
      Some ''sample_angle 2 mod''"
    by (simp add: double_eval toString_eval Let_def)
  then show ?thesis
    using send_plain [of name toStr v] send_mod [of toStr base v] by blast
qed

theorem encode_wire_text_witness:
  "\<not> endsWith ''move_dist'' ''_mod'' \<and>
   sendVariableUpdate number_toString (Some OPEN) ''move_dist'' (Fin (1 / 2)) =
     Some ''move_dist 0.5'' \<and>
   sendVariableUpdate number_toString (Some OPEN) (''turn_rate'' @ ''_mod'') (Fin 2) =
     Some ''turn_rate 2 mod''"
  using encode_wire_text [of "''move_dist''" number_toString "Fin (1 / 2)" "''turn_rate''"]
        encode_wire_text [of "''move_dist''" number_toString "Fin 2" "''turn_rate''"]
  by (simp add: endsWith_def double_eval toString_eval Let_def)

section \<open>The assignment pattern\<close>

lemma takeWhile_run:
  "\<forall>c\<in>set xs. P c \<Longrightarrow> ys = [] \<or> \<not> P (hd ys) \<Longrightarrow> takeWhile P (xs @ ys) = xs"
  by (cases ys) simp_all

lemma dropWhile_run:
  "\<forall>c\<in>set xs. P c \<Longrightarrow> ys = [] \<or> \<not> P (hd ys) \<Longrightarrow> dropWhile P (xs @ ys) = ys"
  by (cases ys) simp_all

lemma startsWith_single: "startsWith s [c] = (s \<noteq> [] \<and> hd s = c)"
  by (cases s) (simp_all add: startsWith_def)

lemma match_assignment_literal:
  assumes k: "k \<noteq> []" "\<forall>c\<in>set k. is_word c"
    and ip: "\<forall>c\<in>set ip. is_digit c"
    and fd: "\<forall>c\<in>set fd. is_digit c"
    and some: "ip \<noteq> [] \<or> fd \<noteq> []"
    and sg: "sg = [] \<or> sg = ''-''"
    and rest: "rest = [] \<or> \<not> is_digit (hd rest)"
    and nofrac: "fd = [] \<longrightarrow> \<not> (\<exists>d r. rest = CHR ''.'' # d # r \<and> is_digit d)"
  shows "match_assignment (k @ ''='' @ sg @ ip @ (if fd = [] then [] else ''.'' @ fd) @ rest) =
           Some (k, sg @ ip @ (if fd = [] then [] else ''.'' @ fd))"
proof -
  let ?frac = "if fd = [] then [] else ''.'' @ fd"
  let ?num = "ip @ ?frac @ rest"
  let ?lit = "sg @ ?num"
  have nd: "\<not> is_digit CHR ''.''" "\<not> is_digit CHR ''-''" "\<not> is_space CHR ''=''"
    "\<not> is_word CHR ''=''" "\<not> is_word CHR ''.''" "\<not> is_space CHR ''-''" "\<not> is_space CHR ''.''"
    by (simp_all add: is_digit_def is_space_def is_word_def)
  have digit_not_space: "\<not> is_space c" if "is_digit c" for c
    using that by (auto simp: is_digit_def is_space_def)
  have hdk: "hd k \<noteq> CHR ''.''"
    using k nd by (cases k) auto
  have s0: "\<not> startsWith (k @ ''='' @ ?lit) ''.''"
    using k hdk by (simp add: startsWith_single)
  have tw: "takeWhile is_word (k @ ''='' @ ?lit) = k"
    using k nd by (intro takeWhile_run) simp_all
  have dw: "dropWhile is_word (k @ ''='' @ ?lit) = ''='' @ ?lit"
    using k nd by (intro dropWhile_run) simp_all
  have s1: "dropWhile is_space (''='' @ ?lit) = ''='' @ ?lit"
    using nd by simp
  have num_hd: "?num \<noteq> [] \<and> (is_digit (hd ?num) \<or> hd ?num = CHR ''.'')"
    using some ip by (cases ip) auto
  have lit_hd: "?lit \<noteq> [] \<and> \<not> is_space (hd ?lit)"
    using sg num_hd nd digit_not_space by (cases "sg = []") auto
  have s2: "dropWhile is_space ?lit = ?lit"
    using lit_hd by (cases ?lit) auto
  have sgn: "(if startsWith ?lit ''-'' then ''-'' else []) = sg"
    using sg num_hd nd by (cases "sg = []") (auto simp: startsWith_single)
  have frac_hd: "?frac @ rest = [] \<or> \<not> is_digit (hd (?frac @ rest))"
    using rest nd by auto
  have twd: "takeWhile is_digit ?num = ip"
    using ip frac_hd by (intro takeWhile_run) simp_all
  have dwd: "dropWhile is_digit ?num = ?frac @ rest"
    using ip frac_hd by (intro dropWhile_run) simp_all
  have fp: "(if startsWith (?frac @ rest) ''.'' then takeWhile is_digit (drop 1 (?frac @ rest)) else []) = fd"
  proof (cases "fd = []")
    case True
    with nofrac show ?thesis
      by (cases rest; cases "tl rest") (auto simp: startsWith_single)
  next
    case False
    then have "takeWhile is_digit (fd @ rest) = fd"
      using fd rest by (intro takeWhile_run) simp_all
    with False show ?thesis by (simp add: startsWith_single)
  qed
  have start_eq: "startsWith (''='' @ ?lit) ''=''" "drop 1 (''='' @ ?lit) = ?lit"
    by (simp_all add: startsWith_single)
  have drop_sg: "drop (length sg) ?lit = ?num"
    by simp
  show ?thesis
    unfolding match_assignment_def Let_def
    apply (simp only: s0 if_False tw dw s1 start_eq s2 sgn drop_sg twd dwd fp)
    using some k apply auto
    done
qed


lemma trim_id: "s \<noteq> [] \<Longrightarrow> \<not> is_space (hd s) \<Longrightarrow> \<not> is_space (last s) \<Longrightarrow> trim s = s"
proof -
  assume a: "s \<noteq> []" "\<not> is_space (hd s)" "\<not> is_space (last s)"
  then have "dropWhile is_space s = s"
    by (cases s) simp_all
  moreover have "dropWhile is_space (rev s) = rev s"
    using a by (cases "rev s") (simp_all add: last_rev hd_rev [symmetric])
  ultimately show ?thesis
    by (simp add: trim_def)
qed

text \<open>
  C10. A fragment made of a key \<open>k\<close> of word characters, \<^verbatim>\<open>=\<close>, a numeric literal
  (an optional \<^verbatim>\<open>-\<close>, digits \<open>ip\<close>, and a fraction of digits \<open>fd\<close> when \<open>fd\<close> is not
  empty) and any further characters \<open>rest\<close> that do not continue the literal is matched:
  the captured value is the literal and the decoder stores its number under \<open>k\<close>. So
  \<^verbatim>\<open>a=5x\<close> decodes to \<^verbatim>\<open>{a: 5}\<close> and \<^verbatim>\<open>a=1.5.3\<close> to \<^verbatim>\<open>{a: 1.5}\<close>.
\<close>

theorem trailing_text_after_literal_accepted:
  assumes "k \<noteq> []" "\<forall>c\<in>set k. is_word c" "k \<noteq> ''__proto__''"
    and "\<forall>c\<in>set ip. is_digit c" "\<forall>c\<in>set fd. is_digit c" "ip \<noteq> [] \<or> fd \<noteq> []"
    and "sg = [] \<or> sg = ''-''"
    and "rest = [] \<or> (\<not> is_digit (hd rest) \<and> \<not> is_space (last rest))"
    and "fd = [] \<longrightarrow> \<not> (\<exists>d r. rest = CHR ''.'' # d # r \<and> is_digit d)"
    and "lit = sg @ ip @ (if fd = [] then [] else ''.'' @ fd)"
  shows "match_assignment (k @ ''='' @ lit @ rest) = Some (k, lit) \<and>
         parse_assignment st (k @ ''='' @ lit @ rest) = st(k \<mapsto> parseFloat lit) \<and>
         parseSimulationState (JString ''a=5x'') = Some [''a'' \<mapsto> Fin 5] \<and>
         parseSimulationState (JString ''a=1.5.3'') = Some [''a'' \<mapsto> Fin (3 / 2)]"
proof -
  let ?frag = "k @ ''='' @ lit @ rest"
  have m: "match_assignment ?frag = Some (k, lit)"
    using match_assignment_literal [of k ip fd sg rest] assms by auto
  have nsp: "\<not> is_space c" if "is_word c \<or> is_digit c" for c
    using that by (auto simp: is_word_def is_digit_def is_space_def)
  have "hd ?frag = hd k"
    using assms(1) by simp
  then have h: "\<not> is_space (hd ?frag)"
    using assms(1,2) nsp by simp
  have "last ?frag = (if rest = [] then last lit else last rest)"
    using assms by auto
  moreover have "is_digit (last lit)" if "rest = []"
  proof (cases "fd = []")
    case True
    then show ?thesis using assms by auto
  next
    case False
    then show ?thesis using assms by auto
  qed
  ultimately have l: "\<not> is_space (last ?frag)"
    using assms(8) nsp by auto
  have "trim ?frag = ?frag"
    using h l by (intro trim_id) simp_all
  then have p: "parse_assignment st ?frag = st(k \<mapsto> parseFloat lit)"
    using m assms(3) by (simp add: parse_assignment_def)
  have e1: "parseSimulationState (JString ''a=5x'') = Some [''a'' \<mapsto> Fin 5]"
    by (simp add: decoder_defs text_defs double_eval)
  have e2: "parseSimulationState (JString ''a=1.5.3'') = Some [''a'' \<mapsto> Fin (3 / 2)]"
    by (simp add: decoder_defs text_defs double_eval)
  from m p e1 e2 show ?thesis by blast
qed

theorem trailing_text_after_literal_accepted_witness:
  "match_assignment ''rate=-12.5e3'' = Some (''rate'', ''-12.5'') \<and>
   parse_assignment Map.empty ''rate=-12.5e3'' = [''rate'' \<mapsto> Fin (- (25 / 2))]"
  using trailing_text_after_literal_accepted
    [of "''rate''" "''12''" "''5''" "''-''" "''e3''" "''-12.5''" Map.empty]
  by (simp add: text_defs double_eval)

section \<open>Committing an edit\<close>

lemma parseFloat_NaN_no_digit:
  assumes "parseFloat s = NaN"
  shows "takeWhile is_digit (snd (strip_sign (dropWhile is_space s))) = []"
  using assms
  by (auto simp: parseFloat_def Let_def split: prod.splits if_splits)

lemma parseFloat_NaN_parseInt:
  assumes "parseFloat s = NaN"
  shows "parseInt s = NaN"
proof -
  obtain neg u where su: "strip_sign (dropWhile is_space s) = (neg, u)"
    by (cases "strip_sign (dropWhile is_space s)")
  have nd: "takeWhile is_digit u = []"
    using parseFloat_NaN_no_digit [OF assms] su by simp
  have d0: "is_digit CHR ''0''"
    by (simp add: is_digit_def)
  have "\<not> startsWith u ''0x''" "\<not> startsWith u ''0X''"
    using nd d0 by (cases u; auto simp: startsWith_def)+
  then show ?thesis
    using su nd by (simp add: parseInt_def)
qed

text \<open>
  C8. When an edit is committed and the typed text does not parse as a number
  (\<^verbatim>\<open>parseFloat\<close> gives \<^verbatim>\<open>NaN\<close>, or the variable is an \<^verbatim>\<open>int\<close> and \<^verbatim>\<open>parseInt\<close>
  gives \<^verbatim>\<open>NaN\<close>), the value stored is zero clamped to the range of the variable; the
  text \<^verbatim>\<open>abc\<close> on a variable with the range 1 to 10 stores 1.
\<close>

theorem invalid_edit_stores_clamped_zero:
  assumes "isEditing c"
    and "parseFloat (editValue c) = NaN \<or>
         (var_type variable_def = ''int'' \<and> parseInt (editValue c) = NaN)"
  shows "var_value (fst (snd (applyEdit toStr ws c variable_def))) =
           clampValue (Fin 0) (var_range variable_def) \<and>
         clampValue (Fin 0) (Some \<lparr>range_min = Some (Fin 1), range_max = Some (Fin 10)\<rparr>) = Fin 1"
proof
  have "parseInt (editValue c) = NaN" if "var_type variable_def = ''int''"
    using assms(2) that parseFloat_NaN_parseInt by blast
  moreover have "parseFloat (editValue c) = NaN" if "var_type variable_def \<noteq> ''int''"
    using assms(2) that by blast
  ultimately show "var_value (fst (snd (applyEdit toStr ws c variable_def))) =
          clampValue (Fin 0) (var_range variable_def)"
    using assms(1) by (simp add: applyEdit_def js_or_def Let_def)
  show "clampValue (Fin 0) (Some \<lparr>range_min = Some (Fin 1), range_max = Some (Fin 10)\<rparr>) = Fin 1"
    by (simp add: clampValue_def Math_max_def Math_min_def)
qed

theorem invalid_edit_stores_clamped_zero_witness:
  "var_value (fst (snd (applyEdit number_toString (Some OPEN)
      \<lparr>isEditing = True, editValue = ''abc''\<rparr>
      \<lparr>var_name = ''density_scale'', var_type = ''int'', var_value = Fin 5,
       var_step = Some (Fin 1),
       var_range = Some \<lparr>range_min = Some (Fin 1), range_max = Some (Fin 10)\<rparr>\<rparr>))) = Fin 1"
  using invalid_edit_stores_clamped_zero
    [where c = "\<lparr>isEditing = True, editValue = ''abc''\<rparr>" and toStr = number_toString
       and ws = "Some OPEN"
       and variable_def = "\<lparr>var_name = ''density_scale'', var_type = ''int'',
          var_value = Fin 5, var_step = Some (Fin 1),
          var_range = Some \<lparr>range_min = Some (Fin 1), range_max = Some (Fin 10)\<rparr>\<rparr>"]
  by (simp add: text_defs)

section \<open>A transport that is not open\<close>

lemma variables_nth:
  "variables ! 0 =
     \<lparr>var_name = ''move_dist'', var_type = ''float'', var_value = Fin 0,
      var_step = Some (round_double (1 / 100)), var_range = None\<rparr>"
  "variables ! 1 =
     \<lparr>var_name = ''turn_rate'', var_type = ''float'', var_value = Fin 0,
      var_step = Some (Fin (1 / 2)), var_range = None\<rparr>"
  "variables ! Suc 0 =
     \<lparr>var_name = ''turn_rate'', var_type = ''float'', var_value = Fin 0,
      var_step = Some (Fin (1 / 2)), var_range = None\<rparr>"
  "variables ! 8 =
     \<lparr>var_name = ''density_scale'', var_type = ''int'', var_value = Fin 0,
      var_step = Some (Fin 1), var_range = None\<rparr>"
  "variables ! 9 =
     \<lparr>var_name = ''pheromone_decay_rate'', var_type = ''float'', var_value = Fin 0,
      var_step = Some (Fin (- (1 / 2))),
      var_range = Some \<lparr>range_min = Some (Fin (- 100)), range_max = Some (Fin 1)\<rparr>\<rparr>"
  by (simp_all add: variables_def)

text \<open>
  C9. When the socket is absent or not in the state \<^verbatim>\<open>OPEN\<close>, nothing is sent and the
  local update is the one made with an open socket. A committed edit stores what
  \<^verbatim>\<open>parseInt\<close> (for an \<^verbatim>\<open>int\<close>) or \<^verbatim>\<open>parseFloat\<close> reads in the typed text, zero
  when that is falsy, clamped, and leaves the editing mode. Up stores the value plus the step and
  Down the value minus the step, clamped and then, for a \<^verbatim>\<open>float\<close>, rounded to the
  decimals of the step.
\<close>

theorem closed_transport_keeps_local_update:
  assumes "ws \<noteq> Some OPEN"
  shows "applyEdit toStr ws c v =
           (fst (applyEdit toStr (Some OPEN) c v),
            fst (snd (applyEdit toStr (Some OPEN) c v)), None) \<and>
         onclick_up toStr ws v = (fst (onclick_up toStr (Some OPEN) v), None) \<and>
         onclick_down toStr ws v = (fst (onclick_down toStr (Some OPEN) v), None) \<and>
         applyEdit toStr ws c v =
           (if isEditing c
            then (c\<lparr>isEditing := False, editValue := []\<rparr>,
                  v\<lparr>var_value :=
                      clampValue
                        (if var_type v = ''int'' then js_or (parseInt (editValue c)) (Fin 0)
                         else js_or (parseFloat (editValue c)) (Fin 0))
                        (var_range v)\<rparr>,
                  None)
            else (c, v, None)) \<and>
         onclick_up toStr ws v =
           (v\<lparr>var_value :=
                (if var_type v = ''float''
                 then js_div
                        (Math_round
                           (js_mul (clampValue (js_add (var_value v) (view_step v)) (var_range v))
                              (Math_pow10 (step_decimals toStr (view_step v)))))
                        (Math_pow10 (step_decimals toStr (view_step v)))
                 else clampValue (js_add (var_value v) (view_step v)) (var_range v))\<rparr>,
            None) \<and>
         onclick_down toStr ws v =
           (v\<lparr>var_value :=
                (if var_type v = ''float''
                 then js_div
                        (Math_round
                           (js_mul (clampValue (js_sub (var_value v) (view_step v)) (var_range v))
                              (Math_pow10 (step_decimals toStr (view_step v)))))
                        (Math_pow10 (step_decimals toStr (view_step v)))
                 else clampValue (js_sub (var_value v) (view_step v)) (var_range v))\<rparr>,
            None)"
  using assms
  by (simp add: applyEdit_def onclick_up_def onclick_down_def send_closed Let_def)

theorem closed_transport_keeps_local_update_witness:
  "applyEdit number_toString (Some CLOSED) \<lparr>isEditing = True, editValue = ''0.25''\<rparr>
     (variables ! 0) =
     (\<lparr>isEditing = False, editValue = []\<rparr>, (variables ! 0)\<lparr>var_value := Fin (1 / 4)\<rparr>, None) \<and>
   onclick_up number_toString (Some CLOSED) (variables ! 1) =
     ((variables ! 1)\<lparr>var_value := Fin (1 / 2)\<rparr>, None) \<and>
   onclick_down number_toString (Some CLOSED) (variables ! 9) =
     ((variables ! 9)\<lparr>var_value := Fin (1 / 2)\<rparr>, None) \<and>
   onclick_down number_toString (Some CLOSED) (variables ! 8) =
     ((variables ! 8)\<lparr>var_value := Fin (- 1)\<rparr>, None)"
proof -
  let ?c = "\<lparr>isEditing = True, editValue = ''0.25''\<rparr>"
  have closed: "Some CLOSED \<noteq> Some OPEN"
    by simp
  note pinned =
    closed_transport_keeps_local_update [OF closed, of number_toString ?c,
      THEN conjunct2, THEN conjunct2, THEN conjunct2]
  note edit_pinned = pinned [THEN conjunct1]
    and up_pinned = pinned [THEN conjunct2, THEN conjunct1]
    and down_pinned = pinned [THEN conjunct2, THEN conjunct2]
  have half: "number_toString (Fin (1 / 2)) = ''0.5''" "number_toString (Fin (- (1 / 2))) = ''-0.5''"
    by (simp_all add: double_eval toString_eval Let_def)
  have ten: "Math_pow10 (Suc 0) = Fin 10"
    by (simp add: Math_pow10_def double_eval)
  have edit: "applyEdit number_toString (Some CLOSED) ?c (variables ! 0) =
      (\<lparr>isEditing = False, editValue = []\<rparr>, (variables ! 0)\<lparr>var_value := Fin (1 / 4)\<rparr>, None)"
    using edit_pinned [of "variables ! 0"]
    by (simp add: variables_nth clampValue_def js_or_def text_defs double_eval)
  have up: "onclick_up number_toString (Some CLOSED) (variables ! 1) =
      ((variables ! 1)\<lparr>var_value := Fin (1 / 2)\<rparr>, None)"
    using up_pinned [of "variables ! 1"]
    by (simp add: variables_nth view_step_def clampValue_def step_decimals_def half ten
        js_or_def js_mul_def js_div_def double_eval)
  have down: "onclick_down number_toString (Some CLOSED) (variables ! 9) =
      ((variables ! 9)\<lparr>var_value := Fin (1 / 2)\<rparr>, None)"
    using down_pinned [of "variables ! 9"]
    by (simp add: variables_nth view_step_def clampValue_def step_decimals_def half ten
        js_or_def js_sub_def js_mul_def js_div_def Math_max_def Math_min_def double_eval)
  have down_int: "onclick_down number_toString (Some CLOSED) (variables ! 8) =
      ((variables ! 8)\<lparr>var_value := Fin (- 1)\<rparr>, None)"
    using down_pinned [of "variables ! 8"]
    by (simp add: variables_nth view_step_def clampValue_def js_or_def js_sub_def double_eval)
  from edit up down down_int show ?thesis
    by (intro conjI)
qed

section \<open>A decoder that fails\<close>

lemma decoder_total_on_strings: "parseSimulationState (JString s) \<noteq> None"
  by (simp add: parseSimulationState_def Let_def)

text \<open>
  C4. The decoder throws inside its \<^verbatim>\<open>try\<close> block exactly when its argument is not a
  string. It then returns \<^verbatim>\<open>null\<close>, and the handler, given \<^verbatim>\<open>null\<close>, raises nothing and
  leaves the registry as it was.
\<close>

theorem decoder_failure_keeps_registry:
  assumes "\<forall>s. x \<noteq> JString s"
  shows "parseSimulationState x = None \<and>
         apply_server_state (parseSimulationState x) vars = (None, vars)"
proof -
  have "parseSimulationState x = None"
    using assms by (cases x) (simp_all add: parseSimulationState_def)
  then show ?thesis
    by (simp add: apply_server_state_def)
qed

theorem decoder_failure_keeps_registry_witness:
  "parseSimulationState JUndefined = None \<and>
   apply_server_state (parseSimulationState JUndefined) variables = (None, variables)"
  by (rule decoder_failure_keeps_registry) simp

section \<open>The frame of a snapshot\<close>

lemma update_variable_absent: "st (var_name v) = None \<Longrightarrow> update_variable st v = v"
  by (simp add: update_variable_def)

lemma update_variable_fields:
  "update_variable st v = v\<lparr>var_value := var_value (update_variable st v)\<rparr>"
  by (simp add: update_variable_def Let_def split: option.split)

lemma update_variable_other_key:
  "k \<noteq> var_name v \<Longrightarrow> update_variable (st(k \<mapsto> x)) v = update_variable st v"
  by (simp add: update_variable_def)

lemma update_without_shadowing:
  "st ''hasOwnProperty'' = None \<Longrightarrow>
   updateVariablesFromServer st vars = (None, map (update_variable st) vars)"
  by (induction vars) simp_all


lemma unmentioned_variables_kept:
  assumes "i < length vars" "st (var_name (vars ! i)) = None"
  shows "snd (updateVariablesFromServer st vars) ! i = vars ! i"
proof (cases "st ''hasOwnProperty'' = None")
  case True
  then show ?thesis
    using assms by (simp add: update_without_shadowing update_variable_absent)
next
  case False
  then show ?thesis
    using assms by (cases vars) auto
qed

lemma unknown_key_ignored:
  assumes "k \<notin> var_name ` set vars" "k \<noteq> ''hasOwnProperty''"
  shows "updateVariablesFromServer (st(k \<mapsto> x)) vars = updateVariablesFromServer st vars"
  using assms by (induction vars) (auto simp: update_variable_other_key)

text \<open>
  C5. The key \<^verbatim>\<open>hasOwnProperty\<close> matches no variable of the registry and is not ignored:
  with it in the snapshot the update throws before it writes anything, and \<^verbatim>\<open>move_dist\<close>,
  which the same snapshot sets to 5, keeps its old value 0; without it the snapshot sets
  \<^verbatim>\<open>move_dist\<close> to 5.
\<close>

theorem unknown_key_hasOwnProperty_aborts_snapshot:
  "on_message ''Success: .{move_dist=5, hasOwnProperty=1}'' variables =
     (Some TypeError, variables) \<and>
   on_message ''Success: .{move_dist=5}'' variables =
     (None, variables[0 := (variables ! 0)\<lparr>var_value := Fin 5\<rparr>])"
proof
  show "on_message ''Success: .{move_dist=5, hasOwnProperty=1}'' variables =
     (Some TypeError, variables)"
    by (simp add: on_message_def apply_server_state_def decoder_defs text_defs double_eval
        variables_def)
  have "parseSimulationState (JString ''.{move_dist=5}'') = Some [''move_dist'' \<mapsto> Fin 5]"
    by (simp add: decoder_defs text_defs double_eval)
  then have "on_message ''Success: .{move_dist=5}'' variables =
      (None, map (update_variable [''move_dist'' \<mapsto> Fin 5]) variables)"
    by (simp add: on_message_def apply_server_state_def update_without_shadowing text_defs)
  also have "map (update_variable [''move_dist'' \<mapsto> Fin 5]) variables =
      variables[0 := (variables ! 0)\<lparr>var_value := Fin 5\<rparr>]"
    by (simp add: variables_def update_variable_def angleVariables_def clampValue_def)
  finally show "on_message ''Success: .{move_dist=5}'' variables =
     (None, variables[0 := (variables ! 0)\<lparr>var_value := Fin 5\<rparr>])" .
qed

section \<open>The range of a variable\<close>

lemma clampValue_within:
  assumes "js_le lo hi" "v \<noteq> NaN"
    and "rng = Some r" "range_min r = Some lo" "range_max r = Some hi"
  shows "js_le lo (clampValue v rng) \<and> js_le (clampValue v rng) hi"
  using assms
  by (cases lo; cases hi; cases v) (auto simp: clampValue_def Math_max_def Math_min_def)

lemma Math_round_not_NaN: "a \<noteq> NaN \<Longrightarrow> Math_round a \<noteq> NaN"
  by (cases a) simp_all

lemma js_div_not_NaN: "a \<noteq> NaN \<Longrightarrow> y \<noteq> 0 \<Longrightarrow> js_div a (Fin y) \<noteq> NaN"
  by (cases a) (simp_all add: js_div_def)

lemma js_mul_not_NaN: "a \<noteq> NaN \<Longrightarrow> y \<noteq> 0 \<Longrightarrow> js_mul a (Fin y) \<noteq> NaN"
  by (cases a) (simp_all add: js_mul_def)

lemma angle_conversion_not_NaN:
  assumes "a \<noteq> NaN"
  shows "js_div (Math_round (js_mul (js_div a Math_PI) (Fin 10000))) (Fin 10000) \<noteq> NaN"
proof -
  have "js_div a Math_PI \<noteq> NaN"
    using assms by (simp add: Math_PI_def js_div_not_NaN)
  then have "js_mul (js_div a Math_PI) (Fin 10000) \<noteq> NaN"
    by (simp add: js_mul_not_NaN)
  then have "Math_round (js_mul (js_div a Math_PI) (Fin 10000)) \<noteq> NaN"
    by (rule Math_round_not_NaN)
  then show ?thesis
    by (simp add: js_div_not_NaN)
qed

lemma edit_within_range:
  assumes "isEditing c" "js_le lo hi"
    and "var_range v = Some r" "range_min r = Some lo" "range_max r = Some hi"
  shows "js_le lo (var_value (fst (snd (applyEdit toStr ws c v)))) \<and>
         js_le (var_value (fst (snd (applyEdit toStr ws c v)))) hi"
proof -
  let ?raw = "if var_type v = ''int'' then js_or (parseInt (editValue c)) (Fin 0)
              else js_or (parseFloat (editValue c)) (Fin 0)"
  have "?raw \<noteq> NaN"
    by (simp add: js_or_def)
  moreover have "var_value (fst (snd (applyEdit toStr ws c v))) = clampValue ?raw (var_range v)"
    using assms(1) by (simp add: applyEdit_def Let_def)
  ultimately show ?thesis
    using clampValue_within [OF assms(2) _ assms(3,4,5)] by simp
qed

lemma snapshot_within_range:
  assumes "st (var_name v) = Some raw" "raw \<noteq> NaN" "js_le lo hi"
    and "var_range v = Some r" "range_min r = Some lo" "range_max r = Some hi"
  shows "js_le lo (var_value (update_variable st v)) \<and>
         js_le (var_value (update_variable st v)) hi"
proof -
  let ?new = "if var_name v \<in> set angleVariables
              then js_div (Math_round (js_mul (js_div raw Math_PI) (Fin 10000))) (Fin 10000)
              else raw"
  let ?final = "if var_type v = ''int'' then Math_round ?new else ?new"
  have "?new \<noteq> NaN"
    using assms(2) angle_conversion_not_NaN by simp
  then have "?final \<noteq> NaN"
    using Math_round_not_NaN by simp
  moreover have "var_value (update_variable st v) = clampValue ?final (var_range v)"
    using assms(1) by (simp add: update_variable_def Let_def)
  ultimately show ?thesis
    using clampValue_within [OF assms(3) _ assms(4,5,6)] by simp
qed

text \<open>The decoder stores no \<^verbatim>\<open>NaN\<close>: every captured value has a digit.\<close>

lemma match_assignment_shape:
  assumes "match_assignment t = Some (k, lit)"
  shows "\<exists>sg ip fp. (sg = [] \<or> sg = ''-'') \<and> (\<forall>c\<in>set ip. is_digit c) \<and>
           (\<forall>c\<in>set fp. is_digit c) \<and>
           ((fp \<noteq> [] \<and> lit = sg @ ip @ ''.'' @ fp) \<or> (ip \<noteq> [] \<and> lit = sg @ ip))"
proof -
  define s0 where "s0 = (if startsWith t ''.'' then drop 1 t else t)"
  define s2 where "s2 = dropWhile is_space (drop 1 (dropWhile is_space (dropWhile is_word s0)))"
  define sg where "sg = (if startsWith s2 ''-'' then ''-'' else [])"
  define ip where "ip = takeWhile is_digit (drop (length sg) s2)"
  define fp where "fp = (if startsWith (dropWhile is_digit (drop (length sg) s2)) ''.''
      then takeWhile is_digit (drop 1 (dropWhile is_digit (drop (length sg) s2))) else [])"
  have lit: "(fp \<noteq> [] \<and> lit = sg @ ip @ ''.'' @ fp) \<or> (ip \<noteq> [] \<and> lit = sg @ ip)"
    using assms unfolding match_assignment_def Let_def s0_def s2_def sg_def ip_def fp_def
    by (auto split: if_splits)
  have "\<forall>c\<in>set ip. is_digit c" "\<forall>c\<in>set fp. is_digit c"
    unfolding ip_def fp_def by (auto dest: set_takeWhileD)
  moreover have "sg = [] \<or> sg = ''-''"
    by (simp add: sg_def)
  ultimately show ?thesis
    using lit by blast
qed

lemma parseFloat_literal_not_NaN:
  assumes sg: "sg = [] \<or> sg = ''-''"
    and ip: "\<forall>c\<in>set ip. is_digit c" and fp: "\<forall>c\<in>set fp. is_digit c"
    and lit: "(fp \<noteq> [] \<and> lit = sg @ ip @ ''.'' @ fp) \<or> (ip \<noteq> [] \<and> lit = sg @ ip)"
  shows "parseFloat lit \<noteq> NaN"
proof -
  define body where "body = (if fp \<noteq> [] then ip @ ''.'' @ fp else ip)"
  have dg: "\<not> is_space c \<and> c \<noteq> CHR ''-'' \<and> c \<noteq> CHR ''+'' \<and> c \<noteq> CHR ''I''"
    if "is_digit c \<or> c = CHR ''.''" for c
    using that by (auto simp: is_digit_def is_space_def)
  have nd: "\<not> is_digit CHR ''.''" "\<not> is_space CHR ''-''"
    by (simp_all add: is_digit_def is_space_def)
  consider (frac) "fp \<noteq> []" "lit = sg @ ip @ ''.'' @ fp" | (whole) "fp = []" "ip \<noteq> []" "lit = sg @ ip"
    | (both) "fp \<noteq> []" "ip \<noteq> []" "lit = sg @ ip"
    using lit by blast
  then have "\<exists>b. lit = sg @ b \<and> b \<noteq> [] \<and> (is_digit (hd b) \<or> hd b = CHR ''.'') \<and>
      (takeWhile is_digit b \<noteq> [] \<or>
       (startsWith (dropWhile is_digit b) ''.'' \<and>
        takeWhile is_digit (tl (dropWhile is_digit b)) \<noteq> []))"
  proof cases
    case frac
    have dw: "dropWhile is_digit (ip @ ''.'' @ fp) = ''.'' @ fp"
      using ip nd by (intro dropWhile_run) simp_all
    have tw: "takeWhile is_digit fp \<noteq> []"
      using fp frac(1) by (cases fp) auto
    have "is_digit (hd (ip @ ''.'' @ fp)) \<or> hd (ip @ ''.'' @ fp) = CHR ''.''"
      using ip by (cases ip) auto
    moreover have "startsWith (dropWhile is_digit (ip @ ''.'' @ fp)) ''.'' \<and>
        takeWhile is_digit (tl (dropWhile is_digit (ip @ ''.'' @ fp))) \<noteq> []"
      using tw by (simp only: dw) (simp add: startsWith_single)
    ultimately show ?thesis
      using frac(2) by (intro exI [of _ "ip @ ''.'' @ fp"]) simp
  next
    case whole
    then show ?thesis
      using ip by (intro exI [of _ ip]) (cases ip; auto)
  next
    case both
    then show ?thesis
      using ip by (intro exI [of _ ip]) (cases ip; auto)
  qed
  then obtain b where b: "lit = sg @ b" "b \<noteq> []" "is_digit (hd b) \<or> hd b = CHR ''.''"
    "takeWhile is_digit b \<noteq> [] \<or>
       (startsWith (dropWhile is_digit b) ''.'' \<and>
        takeWhile is_digit (tl (dropWhile is_digit b)) \<noteq> [])"
    by blast
  have hdb: "\<not> is_space (hd b)" "hd b \<noteq> CHR ''-''" "hd b \<noteq> CHR ''+''" "hd b \<noteq> CHR ''I''"
    using dg [of "hd b"] b(3) by blast+
  have dw: "dropWhile is_space lit = lit"
    using sg b hdb nd by (cases b) auto
  have ss: "snd (strip_sign lit) = b"
    using sg b hdb by (cases b) (auto simp: strip_sign_def)
  have ninf: "\<not> startsWith b ''Infinity''"
    using b(2) hdb by (cases b) (auto simp: startsWith_def)
  show ?thesis
    using b(4) ninf
    by (cases "strip_sign lit")
      (use ss in \<open>auto simp: parseFloat_def dw Let_def startsWith_single split: list.splits\<close>)
qed

lemma parse_assignment_not_NaN:
  assumes "\<forall>k x. st k = Some x \<longrightarrow> x \<noteq> NaN"
  shows "\<forall>k x. parse_assignment st a k = Some x \<longrightarrow> x \<noteq> NaN"
proof (cases "match_assignment (trim a)")
  case None
  then show ?thesis
    using assms by (simp add: parse_assignment_def)
next
  case (Some m)
  obtain key lit where m: "m = (key, lit)"
    by (cases m)
  have "parseFloat lit \<noteq> NaN"
    using match_assignment_shape [of "trim a" key lit] Some m parseFloat_literal_not_NaN
    by blast
  then show ?thesis
    using assms Some m by (simp add: parse_assignment_def)
qed

lemma foldl_parse_assignment_not_NaN:
  "\<forall>k x. st k = Some x \<longrightarrow> x \<noteq> NaN \<Longrightarrow>
   \<forall>k x. foldl parse_assignment st as k = Some x \<longrightarrow> x \<noteq> NaN"
proof (induction as arbitrary: st)
  case Nil
  then show ?case by simp
next
  case (Cons a as)
  show ?case
    using Cons.IH [OF parse_assignment_not_NaN [OF Cons.prems]] by simp
qed

lemma decoded_values_not_NaN:
  assumes "parseSimulationState x = Some st" "st k = Some y"
  shows "y \<noteq> NaN"
proof (cases x)
  case (JString s)
  have "\<forall>k x. Map.empty k = Some x \<longrightarrow> x \<noteq> NaN"
    by simp
  from foldl_parse_assignment_not_NaN [OF this] show ?thesis
    using assms JString by (auto simp: parseSimulationState_def Let_def)
qed (use assms in \<open>simp_all add: parseSimulationState_def\<close>)


text \<open>
  Rounding to one decimal keeps a value between -100 and 1 there: ten times the value
  rounds to a double between -1000 and 10, \<^verbatim>\<open>Math.round\<close> gives an integer between
  them, and a tenth of it rounds to a double between -100 and 1.
\<close>

lemma step_round_within:
  assumes "- 100 \<le> y" "y \<le> 1"
  shows "\<exists>u. js_div (Math_round (js_mul (Fin y) (Fin 10))) (Fin 10) = Fin u \<and>
           - 100 \<le> u \<and> u \<le> 1"
proof -
  have "of_int (- 1000) \<le> y * 10" "y * 10 \<le> of_int 10"
    using assms by simp_all
  then obtain z where z: "round_double (y * 10) = Fin z" "of_int (- 1000) \<le> z" "z \<le> of_int 10"
    using round_double_between [of "- 1000" "y * 10" 10] by auto
  define n where "n = \<lfloor>z + 1 / 2\<rfloor>"
  have n: "- 1000 \<le> n" "n \<le> 10"
    using z(2,3) unfolding n_def by (simp_all add: le_floor_iff floor_le_iff)
  have "of_int (- 100) \<le> (of_int n :: real) / 10" "(of_int n :: real) / 10 \<le> of_int 1"
    using n by simp_all
  then obtain u where u: "round_double (of_int n / 10) = Fin u" "of_int (- 100) \<le> u" "u \<le> of_int 1"
    using round_double_between [of "- 100" "of_int n / 10" 1] by auto
  have "js_div (Math_round (js_mul (Fin y) (Fin 10))) (Fin 10) = Fin u"
    using z(1) u(1) by (simp add: js_mul_def js_div_def n_def)
  then show ?thesis
    using u(2,3) by auto
qed

text \<open>The registry has one variable with a range.\<close>

lemma ranged_variable:
  assumes "w \<in> set variables" "var_range w = Some r"
  shows "w = variables ! 9"
  using assms by (auto simp: variables_def)

lemma step_decimals_half:
  "step_decimals number_toString (Fin (- (1 / 2))) = 1"
  by (simp add: step_decimals_def double_eval toString_eval Let_def)

lemma Math_pow10_1: "Math_pow10 1 = Fin 10" "Math_pow10 (Suc 0) = Fin 10"
  by (simp_all add: Math_pow10_def double_eval)

text \<open>
  C1. For the variable of the registry that has a range, \<^verbatim>\<open>pheromone_decay_rate\<close> with
  the step -0.5 and the range -100 to 1, whatever its value \<open>x\<close> before (the registry
  never holds a \<^verbatim>\<open>NaN\<close>): the value stored by a click on Up or Down, by a committed edit
  and by a snapshot, decoded from any text or given with a value that is not \<^verbatim>\<open>NaN\<close>,
  lies between the minimum and the maximum. On Up and Down the rounding to the one
  decimal of the step comes after the clamp, and does not leave the range.
\<close>

theorem stored_value_within_range:
  assumes "w \<in> set variables" "var_range w = Some r"
    and "range_min r = Some lo" "range_max r = Some hi"
    and "v = w\<lparr>var_value := x\<rparr>" "x \<noteq> NaN"
  shows "js_le lo (var_value (fst (onclick_up number_toString ws v))) \<and>
         js_le (var_value (fst (onclick_up number_toString ws v))) hi \<and>
         js_le lo (var_value (fst (onclick_down number_toString ws v))) \<and>
         js_le (var_value (fst (onclick_down number_toString ws v))) hi \<and>
         (isEditing c \<longrightarrow>
            js_le lo (var_value (fst (snd (applyEdit toStr ws c v)))) \<and>
            js_le (var_value (fst (snd (applyEdit toStr ws c v)))) hi) \<and>
         (parseSimulationState (JString s) = Some st \<and> st (var_name v) \<noteq> None \<longrightarrow>
            js_le lo (var_value (update_variable st v)) \<and>
            js_le (var_value (update_variable st v)) hi) \<and>
         (st' (var_name v) = Some raw \<and> raw \<noteq> NaN \<longrightarrow>
            js_le lo (var_value (update_variable st' v)) \<and>
            js_le (var_value (update_variable st' v)) hi)"
proof -
  have w: "w = variables ! 9"
    using assms(1,2) by (rule ranged_variable)
  have r: "r = \<lparr>range_min = Some (Fin (- 100)), range_max = Some (Fin 1)\<rparr>"
    using assms(2) w by (simp add: variables_nth)
  have lo: "lo = Fin (- 100)" and hi: "hi = Fin 1"
    using assms(3,4) r by simp_all
  have le: "js_le lo hi"
    by (simp add: lo hi)
  have rng: "var_range v = Some r" "range_min r = Some lo" "range_max r = Some hi"
    using assms(2,3,4,5) by simp_all
  have ty: "var_type v = ''float''" and step: "view_step v = Fin (- (1 / 2))"
    using assms(5) w by (simp_all add: variables_nth view_step_def js_or_def)
  have val: "var_value v = x"
    using assms(5) by simp
  have within: "js_le lo (js_div (Math_round (js_mul (clampValue a (var_range v)) (Fin 10))) (Fin 10)) \<and>
      js_le (js_div (Math_round (js_mul (clampValue a (var_range v)) (Fin 10))) (Fin 10)) hi"
    if "a \<noteq> NaN" for a
  proof -
    have cl: "js_le lo (clampValue a (var_range v)) \<and> js_le (clampValue a (var_range v)) hi"
      using clampValue_within [OF le that rng] .
    then obtain y where y: "clampValue a (var_range v) = Fin y" "- 100 \<le> y" "y \<le> 1"
      unfolding lo hi by (cases "clampValue a (var_range v)") auto
    obtain u where "js_div (Math_round (js_mul (Fin y) (Fin 10))) (Fin 10) = Fin u"
        "- 100 \<le> u" "u \<le> 1"
      using step_round_within [OF y(2,3)] by blast
    then show ?thesis
      by (simp add: y(1) lo hi)
  qed
  have up: "var_value (fst (onclick_up number_toString ws v)) =
      js_div (Math_round (js_mul (clampValue (js_add x (Fin (- (1 / 2)))) (var_range v)) (Fin 10)))
        (Fin 10)"
    by (simp add: onclick_up_def ty step val step_decimals_half Math_pow10_1 Let_def)
  have down: "var_value (fst (onclick_down number_toString ws v)) =
      js_div (Math_round (js_mul (clampValue (js_add x (Fin (1 / 2))) (var_range v)) (Fin 10)))
        (Fin 10)"
    by (simp add: onclick_down_def ty step val step_decimals_half Math_pow10_1 js_sub_def Let_def)
  have upv: "js_le lo (var_value (fst (onclick_up number_toString ws v))) \<and>
      js_le (var_value (fst (onclick_up number_toString ws v))) hi"
    unfolding up using within [OF js_add_not_NaN [OF assms(6)]] .
  have downv: "js_le lo (var_value (fst (onclick_down number_toString ws v))) \<and>
      js_le (var_value (fst (onclick_down number_toString ws v))) hi"
    unfolding down using within [OF js_add_not_NaN [OF assms(6)]] .
  have edit: "isEditing c \<longrightarrow>
      js_le lo (var_value (fst (snd (applyEdit toStr ws c v)))) \<and>
      js_le (var_value (fst (snd (applyEdit toStr ws c v)))) hi"
    using edit_within_range [OF _ le rng] by blast
  have given: "js_le lo (var_value (update_variable t v)) \<and>
      js_le (var_value (update_variable t v)) hi"
    if "t (var_name v) = Some a" "a \<noteq> NaN" for t a
    using snapshot_within_range [of t v a lo hi r] that le rng by blast
  have decoded: "parseSimulationState (JString s) = Some st \<and> st (var_name v) \<noteq> None \<longrightarrow>
      js_le lo (var_value (update_variable st v)) \<and>
      js_le (var_value (update_variable st v)) hi"
    using given decoded_values_not_NaN by blast
  from upv downv edit decoded given show ?thesis
    by blast
qed

theorem stored_value_within_range_witness:
  "js_le (Fin (- 100))
     (var_value (fst (onclick_down number_toString (Some OPEN)
        ((variables ! 9)\<lparr>var_value := Fin 1\<rparr>)))) \<and>
   js_le (var_value (fst (onclick_down number_toString (Some OPEN)
        ((variables ! 9)\<lparr>var_value := Fin 1\<rparr>)))) (Fin 1) \<and>
   js_le (var_value (update_variable [''pheromone_decay_rate'' \<mapsto> Fin 7]
        ((variables ! 9)\<lparr>var_value := Fin 1\<rparr>))) (Fin 1)"
  using stored_value_within_range
    [where w = "variables ! 9" and lo = "Fin (- 100)" and hi = "Fin 1" and x = "Fin 1"
       and v = "(variables ! 9)\<lparr>var_value := Fin 1\<rparr>" and ws = "Some OPEN"
       and r = "\<lparr>range_min = Some (Fin (- 100)), range_max = Some (Fin 1)\<rparr>"
       and st' = "[''pheromone_decay_rate'' \<mapsto> Fin 7]" and raw = "Fin 7"]
  by (simp add: variables_nth) (simp add: variables_def)

section \<open>Integer variables\<close>

text \<open>What \<^verbatim>\<open>parseInt\<close> reads: white space \<open>sp\<close>, a sign \<open>sg\<close> and a body.\<close>

lemma parseInt_head:
  assumes sp: "\<forall>d\<in>set sp. is_space d"
    and sg: "sg = [] \<or> sg = ''-'' \<or> sg = ''+''"
    and body: "sg \<noteq> [] \<or> body = [] \<or>
               (\<not> is_space (hd body) \<and> hd body \<noteq> CHR ''-'' \<and> hd body \<noteq> CHR ''+'')"
  shows "strip_sign (dropWhile is_space (sp @ sg @ body)) = (sg = ''-'', body)"
proof -
  have nsp: "\<not> is_space CHR ''-''" "\<not> is_space CHR ''+''"
    by (simp_all add: is_space_def)
  have "sg @ body = [] \<or> \<not> is_space (hd (sg @ body))"
    using sg body nsp by auto
  then have "dropWhile is_space (sp @ sg @ body) = sg @ body"
    using sp by (intro dropWhile_run) simp_all
  moreover have "strip_sign (sg @ body) = (sg = ''-'', body)"
    using sg body by (cases body) (auto simp: strip_sign_def)
  ultimately show ?thesis
    by simp
qed

lemma parseInt_decimal:
  assumes sp: "\<forall>d\<in>set sp. is_space d"
    and sg: "sg = [] \<or> sg = ''-'' \<or> sg = ''+''"
    and ip: "ip \<noteq> []" "\<forall>d\<in>set ip. is_digit d"
    and rest: "rest = [] \<or> \<not> is_digit (hd rest)"
    and nohex: "\<not> startsWith (ip @ rest) ''0x''" "\<not> startsWith (ip @ rest) ''0X''"
  shows "parseInt (sp @ sg @ ip @ rest) =
           round_double (if sg = ''-'' then - real (digits_val 10 ip)
                         else real (digits_val 10 ip))"
proof -
  have dg: "\<not> is_space c \<and> c \<noteq> CHR ''-'' \<and> c \<noteq> CHR ''+''" if "is_digit c" for c
    using that by (auto simp: is_digit_def is_space_def)
  have "is_digit (hd (ip @ rest))"
    using ip by (cases ip) auto
  then have "strip_sign (dropWhile is_space (sp @ sg @ ip @ rest)) = (sg = ''-'', ip @ rest)"
    using dg by (intro parseInt_head [OF sp sg]) blast
  moreover have "takeWhile is_digit (ip @ rest) = ip"
    using ip rest by (intro takeWhile_run) auto
  ultimately show ?thesis
    using ip(1) nohex by (simp add: parseInt_def)
qed

lemma parseInt_hex:
  assumes sp: "\<forall>d\<in>set sp. is_space d"
    and sg: "sg = [] \<or> sg = ''-'' \<or> sg = ''+''"
    and px: "px = ''0x'' \<or> px = ''0X''"
    and hs: "\<forall>d\<in>set hs. is_hex_digit d"
    and rest: "rest = [] \<or> \<not> is_hex_digit (hd rest)"
  shows "parseInt (sp @ sg @ px @ hs @ rest) =
           (if hs = [] then NaN
            else round_double (if sg = ''-'' then - real (digits_val 16 hs)
                               else real (digits_val 16 hs)))"
proof -
  have z: "\<not> is_space CHR ''0''"
    by (simp add: is_space_def)
  have "hd (px @ hs @ rest) = CHR ''0''"
    using px by auto
  then have "strip_sign (dropWhile is_space (sp @ sg @ px @ hs @ rest)) =
      (sg = ''-'', px @ hs @ rest)"
    using z by (intro parseInt_head [OF sp sg]) simp
  moreover have "startsWith (px @ hs @ rest) ''0x'' \<or> startsWith (px @ hs @ rest) ''0X''"
    using px by (auto simp: startsWith_def)
  moreover have "drop 2 (px @ hs @ rest) = hs @ rest"
    using px by auto
  moreover have "takeWhile is_hex_digit (hs @ rest) = hs"
    using hs rest by (intro takeWhile_run) auto
  ultimately show ?thesis
    by (simp add: parseInt_def del: append_assoc)
qed

lemma parseInt_no_digit:
  assumes sp: "\<forall>d\<in>set sp. is_space d"
    and sg: "sg = [] \<or> sg = ''-'' \<or> sg = ''+''"
    and body: "body = [] \<or> \<not> is_digit (hd body)"
    and head: "sg \<noteq> [] \<or> body = [] \<or>
               (\<not> is_space (hd body) \<and> hd body \<noteq> CHR ''-'' \<and> hd body \<noteq> CHR ''+'')"
  shows "parseInt (sp @ sg @ body) = NaN"
proof -
  have d0: "is_digit CHR ''0''"
    by (simp add: is_digit_def)
  have "strip_sign (dropWhile is_space (sp @ sg @ body)) = (sg = ''-'', body)"
    using parseInt_head [OF sp sg head] .
  moreover have "takeWhile is_digit body = []"
    using body by (cases body) auto
  moreover have "\<not> startsWith body ''0x''" "\<not> startsWith body ''0X''"
    using body d0 by (cases body; auto simp: startsWith_def)+
  ultimately show ?thesis
    by (simp add: parseInt_def)
qed


text \<open>
  C2, as the code has it. For a variable of type \<^verbatim>\<open>int\<close>:
  \<^item> a snapshot stores \<^verbatim>\<open>Math.round\<close> of the inbound value (of the converted value, for
    the four angle names), clamped; \<^verbatim>\<open>Math.round\<close> of a finite \<open>y\<close> is \<open>\<lfloor>y + 1/2\<rfloor>\<close>, an
    integer at most one half away from \<open>y\<close>, and a tie goes up, towards plus infinity;
  \<^item> every committed text stores \<^verbatim>\<open>parseInt(text) || 0\<close>, clamped. After white space and
    an optional sign, \<^verbatim>\<open>parseInt\<close> reads the run of decimal digits, or of hexadecimal
    digits behind a \<^verbatim>\<open>0x\<close> or \<^verbatim>\<open>0X\<close>, and drops what follows, a fraction included: it
    truncates towards zero. Its result is the double nearest to the integer read, and
    \<^verbatim>\<open>NaN\<close>, hence 0 stored, when there is no digit.
\<close>

theorem integer_normalization:
  assumes "var_type v = ''int''"
  shows "(st (var_name v) = Some raw \<longrightarrow>
            var_value (update_variable st v) =
              clampValue
                (Math_round
                   (if var_name v \<in> set angleVariables
                    then js_div (Math_round (js_mul (js_div raw Math_PI) (Fin 10000)))
                           (Fin 10000)
                    else raw))
                (var_range v)) \<and>
         Math_round (Fin y) = Fin (of_int \<lfloor>y + 1 / 2\<rfloor>) \<and>
         \<bar>of_int \<lfloor>y + 1 / 2\<rfloor> - y\<bar> \<le> 1 / 2 \<and>
         (y - of_int \<lfloor>y\<rfloor> = 1 / 2 \<longrightarrow> \<lfloor>y + 1 / 2\<rfloor> = \<lfloor>y\<rfloor> + 1) \<and>
         (isEditing c \<longrightarrow>
            var_value (fst (snd (applyEdit toStr ws c v))) =
              clampValue (js_or (parseInt (editValue c)) (Fin 0)) (var_range v)) \<and>
         ((\<forall>d\<in>set sp. is_space d) \<and> (sg = [] \<or> sg = ''-'' \<or> sg = ''+'') \<longrightarrow>
            (ip \<noteq> [] \<and> (\<forall>d\<in>set ip. is_digit d) \<and> (rest = [] \<or> \<not> is_digit (hd rest)) \<and>
             \<not> startsWith (ip @ rest) ''0x'' \<and> \<not> startsWith (ip @ rest) ''0X'' \<longrightarrow>
               parseInt (sp @ sg @ ip @ rest) =
                 round_double (if sg = ''-'' then - real (digits_val 10 ip)
                               else real (digits_val 10 ip))) \<and>
            ((px = ''0x'' \<or> px = ''0X'') \<and> (\<forall>d\<in>set hs. is_hex_digit d) \<and>
             (rest = [] \<or> \<not> is_hex_digit (hd rest)) \<longrightarrow>
               parseInt (sp @ sg @ px @ hs @ rest) =
                 (if hs = [] then NaN
                  else round_double (if sg = ''-'' then - real (digits_val 16 hs)
                                     else real (digits_val 16 hs)))) \<and>
            ((rest = [] \<or> \<not> is_digit (hd rest)) \<and>
             (sg \<noteq> [] \<or> rest = [] \<or>
              (\<not> is_space (hd rest) \<and> hd rest \<noteq> CHR ''-'' \<and> hd rest \<noteq> CHR ''+'')) \<longrightarrow>
               parseInt (sp @ sg @ rest) = NaN))"
proof (intro conjI impI)
  assume "st (var_name v) = Some raw"
  then show "var_value (update_variable st v) =
      clampValue
        (Math_round
           (if var_name v \<in> set angleVariables
            then js_div (Math_round (js_mul (js_div raw Math_PI) (Fin 10000))) (Fin 10000)
            else raw))
        (var_range v)"
    using assms by (simp add: update_variable_def)
next
  show "Math_round (Fin y) = Fin (of_int \<lfloor>y + 1 / 2\<rfloor>)"
    by simp
  show "\<bar>of_int \<lfloor>y + 1 / 2\<rfloor> - y\<bar> \<le> 1 / 2"
    by linarith
next
  assume "y - of_int \<lfloor>y\<rfloor> = 1 / 2"
  then have "y + 1 / 2 = of_int (\<lfloor>y\<rfloor> + 1)"
    by simp
  then show "\<lfloor>y + 1 / 2\<rfloor> = \<lfloor>y\<rfloor> + 1"
    by (simp only: floor_of_int)
next
  assume "isEditing c"
  then show "var_value (fst (snd (applyEdit toStr ws c v))) =
      clampValue (js_or (parseInt (editValue c)) (Fin 0)) (var_range v)"
    using assms by (simp add: applyEdit_def Let_def)
next
  assume h: "(\<forall>d\<in>set sp. is_space d) \<and> (sg = [] \<or> sg = ''-'' \<or> sg = ''+'')"
    and d: "ip \<noteq> [] \<and> (\<forall>d\<in>set ip. is_digit d) \<and> (rest = [] \<or> \<not> is_digit (hd rest)) \<and>
      \<not> startsWith (ip @ rest) ''0x'' \<and> \<not> startsWith (ip @ rest) ''0X''"
  show "parseInt (sp @ sg @ ip @ rest) =
      round_double (if sg = ''-'' then - real (digits_val 10 ip) else real (digits_val 10 ip))"
    using h d by (intro parseInt_decimal) blast+
next
  assume h: "(\<forall>d\<in>set sp. is_space d) \<and> (sg = [] \<or> sg = ''-'' \<or> sg = ''+'')"
    and x: "(px = ''0x'' \<or> px = ''0X'') \<and> (\<forall>d\<in>set hs. is_hex_digit d) \<and>
      (rest = [] \<or> \<not> is_hex_digit (hd rest))"
  show "parseInt (sp @ sg @ px @ hs @ rest) =
      (if hs = [] then NaN
       else round_double (if sg = ''-'' then - real (digits_val 16 hs)
                          else real (digits_val 16 hs)))"
    using h x by (intro parseInt_hex) blast+
next
  assume h: "(\<forall>d\<in>set sp. is_space d) \<and> (sg = [] \<or> sg = ''-'' \<or> sg = ''+'')"
    and n: "(rest = [] \<or> \<not> is_digit (hd rest)) \<and>
      (sg \<noteq> [] \<or> rest = [] \<or>
       (\<not> is_space (hd rest) \<and> hd rest \<noteq> CHR ''-'' \<and> hd rest \<noteq> CHR ''+''))"
  show "parseInt (sp @ sg @ rest) = NaN"
    using h n by (intro parseInt_no_digit) blast+
qed

theorem integer_normalization_witness:
  "var_value (update_variable [''density_scale'' \<mapsto> Fin (5 / 2)] (variables ! 8)) = Fin 3 \<and>
   var_value (fst (snd (applyEdit number_toString (Some OPEN)
      \<lparr>isEditing = True, editValue = '' -2.9''\<rparr> (variables ! 8)))) = Fin (- 2) \<and>
   var_value (fst (snd (applyEdit number_toString (Some OPEN)
      \<lparr>isEditing = True, editValue = ''0x1F''\<rparr> (variables ! 8)))) = Fin 31 \<and>
   parseInt ('' '' @ ''-'' @ ''2'' @ ''.9'') = Fin (- 2) \<and>
   parseInt ([] @ [] @ ''0x'' @ ''1F'' @ ''.5'') = Fin 31 \<and>
   parseInt ([] @ [] @ ''9007199254740993'' @ []) = Fin 9007199254740992 \<and>
   parseInt ([] @ ''+'' @ ''.5'') = NaN"
proof -
  note inst = integer_normalization [of "variables ! 8" "[''density_scale'' \<mapsto> Fin (5 / 2)]"
      "Fin (5 / 2)" "5 / 2" "\<lparr>isEditing = True, editValue = '' -2.9''\<rparr>" number_toString
      "Some OPEN"]
  have int: "var_type (variables ! 8) = ''int''"
    by (simp add: variables_nth)
  have snap: "var_value (update_variable [''density_scale'' \<mapsto> Fin (5 / 2)] (variables ! 8)) =
      Fin 3"
    using inst [OF int, THEN conjunct1]
    by (simp add: variables_nth angleVariables_def clampValue_def)
  have dec: "parseInt ('' '' @ ''-'' @ ''2'' @ ''.9'') = Fin (- 2)"
    using inst [OF int, of "'' ''" "''-''" "''2''" "''.9''", THEN conjunct2, THEN conjunct2,
        THEN conjunct2, THEN conjunct2, THEN conjunct2]
    by (simp add: is_space_def is_digit_def startsWith_def digit_val_def digits_val_def
        double_eval)
  have edit: "var_value (fst (snd (applyEdit number_toString (Some OPEN)
      \<lparr>isEditing = True, editValue = '' -2.9''\<rparr> (variables ! 8)))) = Fin (- 2)"
    using inst [OF int, THEN conjunct2, THEN conjunct2, THEN conjunct2, THEN conjunct2,
        THEN conjunct1] dec
    by (simp add: variables_nth clampValue_def js_or_def)
  have hex_edit: "var_value (fst (snd (applyEdit number_toString (Some OPEN)
      \<lparr>isEditing = True, editValue = ''0x1F''\<rparr> (variables ! 8)))) = Fin 31"
    using integer_normalization [OF int, of _ _ _ "\<lparr>isEditing = True, editValue = ''0x1F''\<rparr>"
        number_toString "Some OPEN", THEN conjunct2, THEN conjunct2, THEN conjunct2,
        THEN conjunct2, THEN conjunct1]
      integer_normalization [OF int, of _ _ _ _ _ _ "[]" "[]" _ "[]" "''0x''" "''1F''",
        THEN conjunct2, THEN conjunct2, THEN conjunct2, THEN conjunct2, THEN conjunct2]
    by (simp add: variables_nth clampValue_def js_or_def is_hex_digit_def is_digit_def
        digit_val_def digits_val_def double_eval)
  have hex: "parseInt ([] @ [] @ ''0x'' @ ''1F'' @ ''.5'') = Fin 31"
    using inst [OF int, of "[]" "[]" _ "''.5''" "''0x''" "''1F''", THEN conjunct2,
        THEN conjunct2, THEN conjunct2, THEN conjunct2, THEN conjunct2]
    by (simp add: is_hex_digit_def is_digit_def digit_val_def digits_val_def double_eval)
  have big: "parseInt ([] @ [] @ ''9007199254740993'' @ []) = Fin 9007199254740992"
    using inst [OF int, of "[]" "[]" "''9007199254740993''" "[]", THEN conjunct2,
        THEN conjunct2, THEN conjunct2, THEN conjunct2, THEN conjunct2]
    by (simp add: is_digit_def startsWith_def digit_val_def digits_val_def double_eval)
  have none: "parseInt ([] @ ''+'' @ ''.5'') = NaN"
    using inst [OF int, of "[]" "''+''" _ "''.5''", THEN conjunct2,
        THEN conjunct2, THEN conjunct2, THEN conjunct2, THEN conjunct2]
    by (simp add: is_digit_def)
  from snap edit hex_edit dec hex big none show ?thesis
    by (intro conjI)
qed

text \<open>
  The claim fails on both paths: committing the text \<^verbatim>\<open>2.9\<close> on the integer variable
  \<^verbatim>\<open>density_scale\<close> stores 2, not 3, and the snapshot value \<^verbatim>\<open>-0.5\<close> is stored as 0,
  not -1.
\<close>

theorem integer_rounding_counterexample:
  "var_value (fst (snd (applyEdit number_toString (Some OPEN)
      \<lparr>isEditing = True, editValue = ''2.9''\<rparr> (variables ! 8)))) = Fin 2 \<and>
   Fin 2 \<noteq> Fin 3 \<and>
   map var_value (snd (on_message ''Success: .{density_scale=-0.5}'' variables)) ! 8 = Fin 0 \<and>
   Fin 0 \<noteq> Fin (- 1)"
proof (intro conjI)
  show "var_value (fst (snd (applyEdit number_toString (Some OPEN)
      \<lparr>isEditing = True, editValue = ''2.9''\<rparr> (variables ! 8)))) = Fin 2"
    by (simp add: applyEdit_def variables_nth clampValue_def js_or_def text_defs double_eval)
  have "parseSimulationState (JString ''.{density_scale=-0.5}'') =
      Some [''density_scale'' \<mapsto> Fin (- (1 / 2))]"
    by (simp add: decoder_defs text_defs double_eval)
  then have "on_message ''Success: .{density_scale=-0.5}'' variables =
      (None, map (update_variable [''density_scale'' \<mapsto> Fin (- (1 / 2))]) variables)"
    by (simp add: on_message_def apply_server_state_def update_without_shadowing text_defs)
  then show "map var_value (snd (on_message ''Success: .{density_scale=-0.5}'' variables)) ! 8 =
      Fin 0"
    by (simp add: variables_def update_variable_def angleVariables_def clampValue_def)
qed simp_all

section \<open>Angles\<close>





end
